theory Spec2Isabelle
  imports Main
begin

section \<open>Python values used by the program\<close>

text \<open>
  The program is a single Python module: imports, constants and formatting helpers, then
  the loading, auditing and HTML-generating functions and \<open>main\<close>. Strings are lists of
  characters; a character stands for a code point below 256, on which the character
  classes below agree with Python's \<open>str.isspace\<close>, \<open>str.lower\<close> and the regular
  expression class \<open>\d\<close>. Python's integers are unbounded, so they are \<open>int\<close>; the
  interpreter's optional limit on the number of digits that \<open>int()\<close> accepts (4300 by
  default) is not modelled. Every exception the code can raise is a value of \<open>error\<close>.
\<close>

datatype error =
    KeyError | AttributeError | TypeError | ValueError | NameError | EOFError

definition nl :: string where
  "nl = [CHR 0x0A]"

definition sp :: "nat \<Rightarrow> string" where
  "sp n = replicate n CHR '' ''"

definition is_space :: "char \<Rightarrow> bool" where
  "is_space c \<longleftrightarrow> (of_char c :: nat) \<in> {9, 10, 11, 12, 13, 28, 29, 30, 31, 32, 133, 160}"

definition py_strip :: "string \<Rightarrow> string" where
  "py_strip s = rev (dropWhile is_space (rev (dropWhile is_space s)))"

definition py_lower_char :: "char \<Rightarrow> char" where
  "py_lower_char c =
     (let n = (of_char c :: nat) in
      if (65 \<le> n \<and> n \<le> 90) \<or> (192 \<le> n \<and> n \<le> 222 \<and> n \<noteq> 215)
      then (case c of Char b0 b1 b2 b3 b4 b5 b6 b7 \<Rightarrow> Char b0 b1 b2 b3 b4 True b6 b7)
      else c)"

definition py_lower :: "string \<Rightarrow> string" where
  "py_lower s = map py_lower_char s"

definition is_digit :: "char \<Rightarrow> bool" where
  "is_digit c \<longleftrightarrow> c \<in> set ''0123456789''"

definition digit_val :: "char \<Rightarrow> int" where
  "digit_val c = int (of_char c) - 48"

definition digit_char :: "nat \<Rightarrow> char" where
  "digit_char d = ''0123456789'' ! d"

text \<open>\<open>str(i)\<close> for an integer: its decimal digits, with a minus sign when negative.\<close>

fun nat_digits :: "nat \<Rightarrow> string" where
  "nat_digits n =
     (if n < 10 then [digit_char n] else nat_digits (n div 10) @ [digit_char (n mod 10)])"

declare nat_digits.simps [simp del]

definition py_str_int :: "int \<Rightarrow> string" where
  "py_str_int i = (if i < 0 then CHR ''-'' # nat_digits (nat (- i)) else nat_digits (nat i))"

text \<open>
  \<open>int(s)\<close> in base ten: surrounding whitespace is dropped, one sign is allowed, then
  digits follow, with single underscores allowed between two digits. Anything else raises
  \<open>ValueError\<close>. The whitespace that \<open>int()\<close> drops is a smaller class than that of
  \<open>str.strip\<close>: the four separators 28 to 31 are not in it.
\<close>

definition is_int_space :: "char \<Rightarrow> bool" where
  "is_int_space c \<longleftrightarrow> (of_char c :: nat) \<in> {9, 10, 11, 12, 13, 32, 133, 160}"

definition int_strip :: "string \<Rightarrow> string" where
  "int_strip s = rev (dropWhile is_int_space (rev (dropWhile is_int_space s)))"

fun int_digits :: "string \<Rightarrow> int \<Rightarrow> int option" where
  "int_digits [] acc = Some acc"
| "int_digits (c # cs) acc =
     (if is_digit c then int_digits cs (10 * acc + digit_val c)
      else if c = CHR ''_'' then
        (case cs of
           [] \<Rightarrow> None
         | d # ds \<Rightarrow> if is_digit d then int_digits ds (10 * acc + digit_val d) else None)
      else None)"

definition int_literal :: "string \<Rightarrow> int option" where
  "int_literal s =
     (case s of
        [] \<Rightarrow> None
      | c # cs \<Rightarrow> if is_digit c then int_digits cs (digit_val c) else None)"

definition py_int :: "string \<Rightarrow> error + int" where
  "py_int s =
     (let t = int_strip s;
          r = (case t of
                 [] \<Rightarrow> None
               | c # cs \<Rightarrow>
                   if c = CHR ''-'' then map_option uminus (int_literal cs)
                   else if c = CHR ''+'' then int_literal cs
                   else int_literal t)
      in case r of None \<Rightarrow> Inl ValueError | Some n \<Rightarrow> Inr n)"

text \<open>
  \<open>re.search(r"\d+", s)\<close>: the leftmost digit starts the match and the match takes every
  digit that follows it; \<open>None\<close> when \<open>s\<close> has no digit.
\<close>

definition search_digits :: "string \<Rightarrow> string option" where
  "search_digits s =
     (case dropWhile (\<lambda>c. \<not> is_digit c) s of
        [] \<Rightarrow> None
      | c # cs \<Rightarrow> Some (takeWhile is_digit (c # cs)))"

section \<open>Roman numerals\<close>

text \<open>
  \<open>arabic_to_roman\<close> walks the keys of \<open>numeral_map\<close> in insertion order and, for each key,
  subtracts it while it fits. \<open>roman_loop i num roman_numeral\<close> is the state of the two
  nested loops when the outer one is at the \<open>i\<close>-th key.
\<close>

definition numeral_map :: "(int \<times> string) list" where
  "numeral_map =
     [(1000, ''M''), (900, ''CM''), (500, ''D''), (400, ''CD''),
      (100, ''C''), (90, ''XC''), (50, ''L''), (40, ''XL''),
      (10, ''X''), (9, ''IX''), (5, ''V''), (4, ''IV''), (1, ''I'')]"

lemma numeral_map_positive: "\<forall>p \<in> set numeral_map. 0 < fst p"
  by (simp add: numeral_map_def)

lemma numeral_map_nth_positive:
  "i < length numeral_map \<Longrightarrow> (v, s) = numeral_map ! i \<Longrightarrow> 0 < v"
  using numeral_map_positive nth_mem [of i numeral_map] by (metis fst_conv)

function roman_loop :: "nat \<Rightarrow> int \<Rightarrow> string \<Rightarrow> string" where
  "roman_loop i num roman_numeral =
     (if i < length numeral_map then
        (case numeral_map ! i of (value, symbol) \<Rightarrow>
           if num \<ge> value
           then roman_loop i (num - value) (roman_numeral @ symbol)
           else roman_loop (Suc i) num roman_numeral)
      else roman_numeral)"
  by pat_completeness auto
termination
  by (relation "measures [\<lambda>(i, num, r). length numeral_map - i, \<lambda>(i, num, r). nat num]")
     (auto dest: numeral_map_nth_positive)

declare roman_loop.simps [simp del]

definition arabic_to_roman :: "int \<Rightarrow> string" where
  "arabic_to_roman num = roman_loop 0 num ''''"


text \<open>
  The specification's side of the conversion. \<open>greedy_roman\<close> follows its words:
  repeatedly take the largest value of the table that still fits, write its symbol, and
  go on with the remainder. \<open>roman_to_arabic\<close> is the usual reader of Roman numerals: a
  symbol counts negatively when a larger one follows it, and a string with any other
  character is rejected.
\<close>

definition roman_value :: "char \<Rightarrow> int option" where
  "roman_value c =
     (if c = CHR ''I'' then Some 1 else if c = CHR ''V'' then Some 5
      else if c = CHR ''X'' then Some 10 else if c = CHR ''L'' then Some 50
      else if c = CHR ''C'' then Some 100 else if c = CHR ''D'' then Some 500
      else if c = CHR ''M'' then Some 1000 else None)"

fun roman_sum :: "int list \<Rightarrow> int" where
  "roman_sum [] = 0"
| "roman_sum [x] = x"
| "roman_sum (x # y # zs) = (if x < y then - x else x) + roman_sum (y # zs)"

definition roman_to_arabic :: "string \<Rightarrow> int option" where
  "roman_to_arabic s = map_option roman_sum (those (map roman_value s))"

lemma find_Some_mem: "find P xs = Some x \<Longrightarrow> x \<in> set xs \<and> P x"
  by (induction xs) (auto split: if_splits)

function greedy_roman :: "int \<Rightarrow> string" where
  "greedy_roman n =
     (case find (\<lambda>(value, symbol). value \<le> n) numeral_map of
        None \<Rightarrow> []
      | Some (value, symbol) \<Rightarrow> symbol @ greedy_roman (n - value))"
  by pat_completeness auto
termination
proof (relation "measure nat")
  show "wf (measure nat)" by simp
next
  fix n :: int and x2 :: "int \<times> string" and x y
  assume f: "find (\<lambda>(value, symbol). value \<le> n) numeral_map = Some x2" and xy: "(x, y) = x2"
  from find_Some_mem [OF f] have "x2 \<in> set numeral_map" and "fst x2 \<le> n"
    by (auto split: prod.splits)
  with numeral_map_positive xy have "0 < x" "x \<le> n" by auto
  then show "(n - x, n) \<in> measure nat" by simp
qed

declare greedy_roman.simps [simp del]

text \<open>Values of the symbols, with 0 for any other character.\<close>

definition rv :: "char \<Rightarrow> int" where
  "rv c = (case roman_value c of Some v \<Rightarrow> v | None \<Rightarrow> 0)"

lemma those_map_roman_value:
  "\<forall>c \<in> set s. roman_value c \<noteq> None \<Longrightarrow> those (map roman_value s) = Some (map rv s)"
  by (induction s) (auto simp: rv_def)

lemma roman_sum_append:
  "xs \<noteq> [] \<Longrightarrow> ys \<noteq> [] \<Longrightarrow> hd ys \<le> last xs \<Longrightarrow>
   roman_sum (xs @ ys) = roman_sum xs + roman_sum ys"
proof (induction xs rule: roman_sum.induct)
  case 1
  then show ?case by simp
next
  case (2 x)
  then show ?case by (cases ys) auto
next
  case (3 x y zs)
  then show ?case by simp
qed


lemma rv_simps:
  "rv CHR ''I'' = 1" "rv CHR ''V'' = 5" "rv CHR ''X'' = 10" "rv CHR ''L'' = 50"
  "rv CHR ''C'' = 100" "rv CHR ''D'' = 500" "rv CHR ''M'' = 1000"
  by (simp_all add: rv_def roman_value_def)

lemma rv_cases: "rv c \<in> {0, 1, 5, 10, 50, 100, 500, 1000}"
  by (simp add: rv_def roman_value_def)

lemma find_numeral_map_cases:
  "find (\<lambda>(value, symbol). value \<le> n) numeral_map =
     (if 1000 \<le> n then Some (1000, ''M'') else if 900 \<le> n then Some (900, ''CM'')
      else if 500 \<le> n then Some (500, ''D'') else if 400 \<le> n then Some (400, ''CD'')
      else if 100 \<le> n then Some (100, ''C'') else if 90 \<le> n then Some (90, ''XC'')
      else if 50 \<le> n then Some (50, ''L'') else if 40 \<le> n then Some (40, ''XL'')
      else if 10 \<le> n then Some (10, ''X'') else if 9 \<le> n then Some (9, ''IX'')
      else if 5 \<le> n then Some (5, ''V'') else if 4 \<le> n then Some (4, ''IV'')
      else if 1 \<le> n then Some (1, ''I'') else None)"
  by (simp add: numeral_map_def)

definition hdval :: "string \<Rightarrow> int" where
  "hdval s = (case s of [] \<Rightarrow> 0 | c # _ \<Rightarrow> rv c)"

lemma hdval_cases: "hdval s \<in> {0, 1, 5, 10, 50, 100, 500, 1000}"
  using rv_cases by (cases s) (simp_all add: hdval_def)

lemma hdval_greedy_le: "0 \<le> n \<Longrightarrow> hdval (greedy_roman n) \<le> n"
  by (subst greedy_roman.simps) (simp add: find_numeral_map_cases hdval_def rv_simps)

lemma greedy_roman_valid: "\<forall>c \<in> set (greedy_roman n). roman_value c \<noteq> None"
proof (induction n rule: greedy_roman.induct)
  case (1 n)
  show ?case
  proof (cases "find (\<lambda>(value, symbol). value \<le> n) numeral_map")
    case None
    then show ?thesis by (subst greedy_roman.simps) simp
  next
    case (Some p)
    obtain v s where p: "p = (v, s)" by (cases p)
    from find_Some_mem [OF Some] p have "(v, s) \<in> set numeral_map"
      by simp
    then have "\<forall>c \<in> set s. roman_value c \<noteq> None"
      by (auto simp: numeral_map_def roman_value_def)
    moreover from "1.IH" [OF Some p [symmetric]]
    have "\<forall>c \<in> set (greedy_roman (n - v)). roman_value c \<noteq> None" .
    ultimately show ?thesis using Some p
      by (subst greedy_roman.simps) auto
  qed
qed

lemma roman_sum_symbol_greedy:
  assumes "s \<noteq> []" and "hdval r \<le> rv (last s)"
  shows "roman_sum (map rv (s @ r)) = roman_sum (map rv s) + roman_sum (map rv r)"
proof (cases r)
  case Nil
  then show ?thesis by simp
next
  case (Cons c cs)
  with assms have "hd (map rv r) \<le> last (map rv s)"
    by (simp add: hdval_def last_map)
  with assms Cons show ?thesis
    by (simp add: roman_sum_append)
qed


lemma greedy_case:
  assumes "find (\<lambda>(value, symbol). value \<le> n) numeral_map = Some (v, s)"
    and "s \<noteq> []" and "roman_sum (map rv s) = v"
    and "hdval (greedy_roman (n - v)) \<le> rv (last s)"
    and "roman_sum (map rv (greedy_roman (n - v))) = n - v"
  shows "roman_sum (map rv (greedy_roman n)) = n"
proof -
  from assms(1) have "greedy_roman n = s @ greedy_roman (n - v)"
    by (subst greedy_roman.simps) simp
  with roman_sum_symbol_greedy [OF assms(2) assms(4)] assms(3) assms(5)
  show ?thesis by simp
qed

lemma range_case:
  assumes "roman_sum (map rv (greedy_roman (n - v))) = n - v"
    and "find (\<lambda>(value, symbol). value \<le> n) numeral_map = Some (v, s)"
    and "s \<noteq> []" and "roman_sum (map rv s) = v" and "v \<le> n"
    and "\<forall>x \<in> {0, 1, 5, 10, 50, 100, 500, 1000}. x \<le> n - v \<longrightarrow> x \<le> rv (last s)"
  shows "roman_sum (map rv (greedy_roman n)) = n"
proof -
  from assms(5) have "hdval (greedy_roman (n - v)) \<le> n - v"
    by (intro hdval_greedy_le) simp
  with assms(6) hdval_cases [of "greedy_roman (n - v)"]
  have "hdval (greedy_roman (n - v)) \<le> rv (last s)"
    by blast
  with assms show ?thesis
    by (intro greedy_case [of n v s])
qed

lemma roman_sum_greedy:
  "0 \<le> n \<Longrightarrow> n \<le> 3999 \<Longrightarrow> roman_sum (map rv (greedy_roman n)) = n"
proof (induction "nat n" arbitrary: n rule: less_induct)
  case less
  let ?G = "roman_sum (map rv (greedy_roman n)) = n"
  have IH: "\<And>v. 0 < v \<Longrightarrow> v \<le> n \<Longrightarrow> roman_sum (map rv (greedy_roman (n - v))) = n - v"
    using less.prems by (intro less.hyps) simp_all
  have g0: "roman_sum (map rv (greedy_roman 0)) = 0"
    by (subst greedy_roman.simps) (simp add: find_numeral_map_cases)
  have s1000: "n < 1000 \<or> ?G"
  proof (cases "1000 \<le> n \<and> \<not> ?G")
    case False
    then show ?thesis by auto
  next
    case True
    with less.prems have b: "n \<le> 3999" by simp
    have ?G
      by (rule range_case [where v = 1000 and s = "''M''"])
         (use True b in \<open>simp_all add: find_numeral_map_cases rv_simps IH g0\<close>)
    then show ?thesis by simp
  qed
  have s900: "n < 900 \<or> ?G"
  proof (cases "900 \<le> n \<and> \<not> ?G")
    case False
    then show ?thesis by auto
  next
    case True
    with s1000 have b: "n \<le> 999" by simp
    have ?G
      by (rule range_case [where v = 900 and s = "''CM''"])
         (use True b in \<open>simp_all add: find_numeral_map_cases rv_simps IH g0\<close>)
    then show ?thesis by simp
  qed
  have s500: "n < 500 \<or> ?G"
  proof (cases "500 \<le> n \<and> \<not> ?G")
    case False
    then show ?thesis by auto
  next
    case True
    with s900 have b: "n \<le> 899" by simp
    have ?G
      by (rule range_case [where v = 500 and s = "''D''"])
         (use True b in \<open>simp_all add: find_numeral_map_cases rv_simps IH g0\<close>)
    then show ?thesis by simp
  qed
  have s400: "n < 400 \<or> ?G"
  proof (cases "400 \<le> n \<and> \<not> ?G")
    case False
    then show ?thesis by auto
  next
    case True
    with s500 have b: "n \<le> 499" by simp
    have ?G
      by (rule range_case [where v = 400 and s = "''CD''"])
         (use True b in \<open>simp_all add: find_numeral_map_cases rv_simps IH g0\<close>)
    then show ?thesis by simp
  qed
  have s100: "n < 100 \<or> ?G"
  proof (cases "100 \<le> n \<and> \<not> ?G")
    case False
    then show ?thesis by auto
  next
    case True
    with s400 have b: "n \<le> 399" by simp
    have ?G
      by (rule range_case [where v = 100 and s = "''C''"])
         (use True b in \<open>simp_all add: find_numeral_map_cases rv_simps IH g0\<close>)
    then show ?thesis by simp
  qed
  have s90: "n < 90 \<or> ?G"
  proof (cases "90 \<le> n \<and> \<not> ?G")
    case False
    then show ?thesis by auto
  next
    case True
    with s100 have b: "n \<le> 99" by simp
    have ?G
      by (rule range_case [where v = 90 and s = "''XC''"])
         (use True b in \<open>simp_all add: find_numeral_map_cases rv_simps IH g0\<close>)
    then show ?thesis by simp
  qed
  have s50: "n < 50 \<or> ?G"
  proof (cases "50 \<le> n \<and> \<not> ?G")
    case False
    then show ?thesis by auto
  next
    case True
    with s90 have b: "n \<le> 89" by simp
    have ?G
      by (rule range_case [where v = 50 and s = "''L''"])
         (use True b in \<open>simp_all add: find_numeral_map_cases rv_simps IH g0\<close>)
    then show ?thesis by simp
  qed
  have s40: "n < 40 \<or> ?G"
  proof (cases "40 \<le> n \<and> \<not> ?G")
    case False
    then show ?thesis by auto
  next
    case True
    with s50 have b: "n \<le> 49" by simp
    have ?G
      by (rule range_case [where v = 40 and s = "''XL''"])
         (use True b in \<open>simp_all add: find_numeral_map_cases rv_simps IH g0\<close>)
    then show ?thesis by simp
  qed
  have s10: "n < 10 \<or> ?G"
  proof (cases "10 \<le> n \<and> \<not> ?G")
    case False
    then show ?thesis by auto
  next
    case True
    with s40 have b: "n \<le> 39" by simp
    have ?G
      by (rule range_case [where v = 10 and s = "''X''"])
         (use True b in \<open>simp_all add: find_numeral_map_cases rv_simps IH g0\<close>)
    then show ?thesis by simp
  qed
  have s9: "n < 9 \<or> ?G"
  proof (cases "9 \<le> n \<and> \<not> ?G")
    case False
    then show ?thesis by auto
  next
    case True
    with s10 have b: "n \<le> 9" by simp
    have ?G
      by (rule range_case [where v = 9 and s = "''IX''"])
         (use True b in \<open>simp_all add: find_numeral_map_cases rv_simps IH g0\<close>)
    then show ?thesis by simp
  qed
  have s5: "n < 5 \<or> ?G"
  proof (cases "5 \<le> n \<and> \<not> ?G")
    case False
    then show ?thesis by auto
  next
    case True
    with s9 have b: "n \<le> 8" by simp
    have ?G
      by (rule range_case [where v = 5 and s = "''V''"])
         (use True b in \<open>simp_all add: find_numeral_map_cases rv_simps IH g0\<close>)
    then show ?thesis by simp
  qed
  have s4: "n < 4 \<or> ?G"
  proof (cases "4 \<le> n \<and> \<not> ?G")
    case False
    then show ?thesis by auto
  next
    case True
    with s5 have b: "n \<le> 4" by simp
    have ?G
      by (rule range_case [where v = 4 and s = "''IV''"])
         (use True b in \<open>simp_all add: find_numeral_map_cases rv_simps IH g0\<close>)
    then show ?thesis by simp
  qed
  have s1: "n < 1 \<or> ?G"
  proof (cases "1 \<le> n \<and> \<not> ?G")
    case False
    then show ?thesis by auto
  next
    case True
    with s4 have b: "n \<le> 3" by simp
    have ?G
      by (rule range_case [where v = 1 and s = "''I''"])
         (use True b in \<open>simp_all add: find_numeral_map_cases rv_simps IH g0\<close>)
    then show ?thesis by simp
  qed
  show ?case
  proof (cases "n = 0")
    case True
    with g0 show ?thesis by simp
  next
    case False
    with less.prems s1 show ?thesis by simp
  qed
qed

lemma roman_to_arabic_greedy:
  "0 \<le> n \<Longrightarrow> n \<le> 3999 \<Longrightarrow> roman_to_arabic (greedy_roman n) = Some n"
  by (simp add: roman_to_arabic_def those_map_roman_value [OF greedy_roman_valid]
      roman_sum_greedy)

lemma roman_loop_greedy:
  "\<forall>j<i. num < fst (numeral_map ! j) \<Longrightarrow>
   roman_loop i num roman_numeral = roman_numeral @ greedy_roman num"
proof (induction i num roman_numeral rule: roman_loop.induct)
  case (1 i num roman_numeral)
  show ?case
  proof (cases "i < length numeral_map")
    case False
    have "\<forall>p \<in> set numeral_map. num < fst p"
    proof
      fix p assume "p \<in> set numeral_map"
      then obtain k where "k < length numeral_map" and "p = numeral_map ! k"
        by (auto simp: in_set_conv_nth)
      with False "1.prems" show "num < fst p" by simp
    qed
    then have "find (\<lambda>(value, symbol). value \<le> num) numeral_map = None"
      by (auto simp: find_None_iff)
    then have "greedy_roman num = []"
      by (subst greedy_roman.simps) simp
    with False show ?thesis
      by (subst roman_loop.simps) simp
  next
    case True
    obtain v s where vs: "numeral_map ! i = (v, s)"
      by (cases "numeral_map ! i")
    from True vs have pos: "0 < v"
      using numeral_map_nth_positive [of i v s] by simp
    show ?thesis
    proof (cases "v \<le> num")
      case le: True
      from True vs le "1.prems"
      have "find (\<lambda>(value, symbol). value \<le> num) numeral_map = Some (v, s)"
        by (subst find_Some_iff) (rule exI [of _ i], auto)
      then have g: "greedy_roman num = s @ greedy_roman (num - v)"
        by (subst greedy_roman.simps) simp
      from "1.prems" pos have "\<forall>j<i. num - v < fst (numeral_map ! j)"
        by auto
      with "1.IH"(1) [OF True vs [symmetric] le]
      have "roman_loop i (num - v) (roman_numeral @ s) = (roman_numeral @ s) @ greedy_roman (num - v)"
        by simp
      with True vs le g show ?thesis
        by (subst roman_loop.simps) simp
    next
      case gt: False
      with "1.prems" vs have "\<forall>j<Suc i. num < fst (numeral_map ! j)"
        by (auto simp: less_Suc_eq)
      with "1.IH"(2) [OF True vs [symmetric] gt]
      have "roman_loop (Suc i) num roman_numeral = roman_numeral @ greedy_roman num"
        by simp
      with True vs gt show ?thesis
        by (subst roman_loop.simps) simp
    qed
  qed
qed

lemma arabic_to_roman_greedy: "arabic_to_roman num = greedy_roman num"
  by (simp add: arabic_to_roman_def roman_loop_greedy)


section \<open>Formatting one table row\<close>

text \<open>
  Each formatter takes \<open>(pdf_link, statute_type, title, date, public_private,
  number_chapter)\<close> and returns the markup of its f-string. \<open>table_row\<close> is the layout
  the f-strings share: a \<open><tr>\<close> of four cells, each on a line of its own.
\<close>

definition anchor :: "string \<Rightarrow> string \<Rightarrow> string" where
  \<open>anchor pdf_link label = ''<a target="_blank" href="'' @ pdf_link @ ''">'' @ label @ ''</a>''\<close>

definition td :: "string \<Rightarrow> string" where
  "td content = ''<td>'' @ content @ ''</td>''"

definition td_empty :: "string \<Rightarrow> string" where
  \<open>td_empty content = ''<td type="empty">'' @ content @ ''</td>''\<close>

definition table_row :: "string \<Rightarrow> string \<Rightarrow> string \<Rightarrow> string \<Rightarrow> string" where
  "table_row cell1 cell2 cell3 cell4 =
     nl @ sp 20 @ ''<tr>'' @
     nl @ sp 24 @ cell1 @
     nl @ sp 24 @ cell2 @
     nl @ sp 24 @ cell3 @
     nl @ sp 24 @ cell4 @
     nl @ sp 20 @ ''</tr>''"

type_synonym formatter =
  "string \<Rightarrow> string \<Rightarrow> string \<Rightarrow> string \<Rightarrow> string \<Rightarrow> string \<Rightarrow> error + string"

definition html_for_law :: formatter where
  "html_for_law pdf_link statute_type title date public_private number_chapter =
     Inr (table_row (td (anchor pdf_link number_chapter)) (td public_private) (td title) (td date))"

text \<open>
  \<open>digit_match\<close> is \<open>None\<close> when \<open>number_chapter\<close> has no digit, and \<open>None.group()\<close> raises
  \<open>AttributeError\<close>.
\<close>

definition html_for_act_resolution_appendix :: formatter where
  "html_for_act_resolution_appendix pdf_link statute_type title date public_private number_chapter =
     (case search_digits number_chapter of
        None \<Rightarrow> Inl AttributeError
      | Some matched_digits \<Rightarrow>
          (case py_int matched_digits of
             Inl e \<Rightarrow> Inl e
           | Inr number \<Rightarrow>
               let title = arabic_to_roman number @ ''. '' @ title
               in Inr (table_row (td (anchor pdf_link statute_type)) (td public_private)
                        (td title) (td date))))"

definition generic_html_generator :: formatter where
  "generic_html_generator pdf_link statute_type title date public_private number_chapter =
     Inr (table_row (td (anchor pdf_link statute_type)) (td []) (td title) (td date))"

definition html_for_articles_ordinance :: formatter where
  "html_for_articles_ordinance pdf_link statute_type title date public_private number_chapter =
     Inr (table_row (td (anchor pdf_link statute_type)) (td []) (td title) (td []))"

definition html_for_special_pages :: formatter where
  "html_for_special_pages pdf_link statute_type title date public_private number_chapter =
     Inr (table_row (td ''&nbsp;'') (td ''&nbsp;'') (td ''&nbsp;'') (td ''&nbsp;'') @
          nl @ sp 4 @
          table_row (td (anchor pdf_link statute_type)) (td []) (td title) (td []))"

definition html_with_empty_cells :: formatter where
  "html_with_empty_cells pdf_link statute_type title date public_private number_chapter =
     Inr (table_row (td_empty (anchor pdf_link statute_type)) (td []) (td []) (td []))"

section \<open>The data frame, the configuration and the module namespace\<close>

text \<open>
  A cell of the data frame is a string, an integer, the missing value \<open>NaN\<close> that pandas
  puts into an empty spreadsheet cell, or any other scalar that is not missing (a float,
  a timestamp), which is kept as the text \<open>str()\<close> gives for it. A row is a pandas
  \<open>Series\<close>: a map from column names to cells. The frame is the list of its rows, and a
  row's index label is its position, as \<open>read_excel\<close> numbers them.
\<close>

datatype cell = Str string | Num int | NaN | Other string

fun py_str :: "cell \<Rightarrow> string" where
  "py_str (Str s) = s"
| "py_str (Num i) = py_str_int i"
| "py_str NaN = ''nan''"
| "py_str (Other s) = s"

fun pd_isna :: "cell \<Rightarrow> bool" where
  "pd_isna NaN = True"
| "pd_isna c = False"

type_synonym row = "string \<rightharpoonup> cell"

text \<open>\<open>row[key]\<close> raises \<open>KeyError\<close> for a column the frame does not have.\<close>

definition row_item :: "row \<Rightarrow> string \<Rightarrow> error + cell" where
  "row_item row key = (case row key of None \<Rightarrow> Inl KeyError | Some c \<Rightarrow> Inr c)"

definition row_get :: "row \<Rightarrow> string \<Rightarrow> cell \<Rightarrow> cell" where
  "row_get row key dflt = (case row key of None \<Rightarrow> dflt | Some c \<Rightarrow> c)"

definition then_do :: "error + 'a \<Rightarrow> ('a \<Rightarrow> error + 'b) \<Rightarrow> error + 'b" where
  "then_do r f = (case r of Inl e \<Rightarrow> Inl e | Inr x \<Rightarrow> f x)"

text \<open>
  The settings the modelled functions read, each as the text it formats to. \<open>SKIP_ROWS\<close>
  is a list, of which only the length is used.
\<close>

record config =
  CONGRESS :: string
  CONGRESS_START_DATE :: string
  CONGRESS_END_DATE :: string
  PUBLIC_PDF_URL :: string
  PRIVATE_PDF_URL :: string
  SKIP_ROWS :: "int list"

text \<open>
  \<open>generate_html\<close> finds a row's formatter in two steps: the statute type is looked up in
  \<open>html_generator_mappings\<close>, loaded from a YAML file, and the name found there is looked
  up in \<open>globals()\<close>, the namespace of the module. A global is one of the six formatters,
  another callable (a function of another arity or the class \<open>Path\<close>: called with six
  strings and added to the output string, each ends in \<open>TypeError\<close>), or an object that is
  not callable, of which only the truth value matters. \<open>source_globals\<close> are the names the
  module's text binds by \<open>import\<close> and \<open>def\<close>. The other bindings (the values loaded
  from YAML at import, the paths \<open>main\<close> assigns, the interpreter's own entries) depend on
  the run and are a parameter, \<open>other_globals\<close>.
\<close>

datatype gval = Formatter formatter | Callable | Object bool

definition source_globals :: "(string \<times> gval) list" where
  "source_globals =
     [(''os'', Object True), (''re'', Object True), (''sys'', Object True),
      (''Path'', Callable), (''pd'', Object True), (''yaml'', Object True),
      (''clear_screen'', Callable), (''load_yaml'', Callable), (''load_config'', Callable),
      (''map_headers'', Callable), (''map_statute_type'', Callable),
      (''map_html_generators'', Callable), (''arabic_to_roman'', Callable),
      (''html_for_law'', Formatter html_for_law),
      (''html_for_act_resolution_appendix'', Formatter html_for_act_resolution_appendix),
      (''generic_html_generator'', Formatter generic_html_generator),
      (''html_for_articles_ordinance'', Formatter html_for_articles_ordinance),
      (''html_for_special_pages'', Formatter html_for_special_pages),
      (''html_with_empty_cells'', Formatter html_with_empty_cells),
      (''load_excel_file'', Callable), (''get_last_audited_row'', Callable),
      (''audit_process'', Callable), (''generate_pdf_link'', Callable),
      (''generate_html'', Callable), (''main'', Callable)]"

record module_state =
  html_generator_mappings :: "string \<rightharpoonup> string"
  other_globals :: "string \<rightharpoonup> gval"

definition map_html_generators :: "module_state \<Rightarrow> string \<Rightarrow> string option" where
  "map_html_generators m statute_type = html_generator_mappings m statute_type"

definition globals_get :: "module_state \<Rightarrow> string option \<Rightarrow> gval option" where
  "globals_get m name =
     (case name of
        None \<Rightarrow> None
      | Some n \<Rightarrow>
          (case map_of source_globals n of Some v \<Rightarrow> Some v | None \<Rightarrow> other_globals m n))"

fun truthy :: "gval option \<Rightarrow> bool" where
  "truthy None = False"
| "truthy (Some (Object b)) = b"
| "truthy (Some g) = True"


section \<open>Generating the HTML\<close>

definition generate_pdf_link :: "config \<Rightarrow> string \<Rightarrow> string \<Rightarrow> string \<Rightarrow> string" where
  "generate_pdf_link cfg statute_type public_private pdf_start =
     (if statute_type = ''Law'' \<and> public_private = ''Private''
      then PRIVATE_PDF_URL cfg @ ''#page='' @ pdf_start
      else PUBLIC_PDF_URL cfg @ ''#page='' @ pdf_start)"

definition html_header :: "config \<Rightarrow> string" where
  \<open>html_header cfg =
     nl @ sp 4 @ ''<!-- Begin HTML-->'' @
     nl @ sp 4 @ ''<a name="'' @ CONGRESS_START_DATE cfg @ ''" id="'' @ CONGRESS_END_DATE cfg @
       ''"></a>'' @
     nl @ sp 4 @ ''<h3 class="js-expandmore" data-hideshow-prefix-class="light">'' @
       CONGRESS cfg @ '' ('' @ CONGRESS_START_DATE cfg @ ''-'' @ CONGRESS_END_DATE cfg @
       '')</h3>'' @
     nl @ sp 4 @ ''<div class="js-to_expand">''\<close>

definition table_close :: string where
  "table_close = nl @ sp 16 @ ''</tbody>'' @ nl @ sp 12 @ ''</table>''"

definition table_open :: "string \<Rightarrow> string" where
  \<open>table_open session =
     nl @ sp 8 @ ''<h4>'' @ session @ ''</h4>'' @
     nl @ sp 12 @ ''<table class="table-bordered table-padded table-full-width">'' @
     nl @ sp 16 @ ''<tbody>''\<close>

definition final_close :: string where
  "final_close = ''</tbody></table>''"

definition no_generator_message :: "string \<Rightarrow> string" where
  "no_generator_message statute_type =
     ''No generator found for statute_type: '' @ [CHR 0x27] @ statute_type @ [CHR 0x27]"

text \<open>
  The state of the loop of \<open>generate_html\<close>: the markup so far, the session of the table
  that is open (empty when none is), and the lines printed.
\<close>

record gen_state =
  html_content :: string
  previous_session :: string
  printed :: "string list"

text \<open>
  The first statements of the loop body sit in \<open>try\<close> \<dots> \<open>except ValueError\<close>. The handler
  formats \<open>excel_path\<close>, a name that is bound only inside \<open>load_excel_file\<close>, so entering it
  raises \<open>NameError\<close>. Any other exception of the \<open>try\<close> block is not caught.
\<close>

definition try_session_type :: "row \<Rightarrow> error + unit" where
  "try_session_type row =
     (case then_do (row_item row ''Session'') (\<lambda>session.
             then_do (row_item row ''Type'') (\<lambda>statute_type. Inr ())) of
        Inl e \<Rightarrow> if e = ValueError then Inl NameError else Inl e
      | Inr u \<Rightarrow> Inr u)"

text \<open>
  After a session change the open table is closed, a new one is opened unless the new
  session is the empty string, and the new session is remembered. \<open>session\<close> is already
  a string here, for which \<open>pd.isna\<close> is false.
\<close>

definition session_change :: "gen_state \<Rightarrow> string \<Rightarrow> gen_state" where
  "session_change st session =
     (if \<not> pd_isna (Str session) \<and> session \<noteq> previous_session st then
        let h1 = (if previous_session st \<noteq> [] then html_content st @ table_close
                  else html_content st);
            h2 = (if session \<noteq> [] then h1 @ table_open session else h1)
        in st\<lparr>html_content := h2, previous_session := session\<rparr>
      else st)"

text \<open>
  The formatter is called when the object found under its name is true. Calling anything
  but a formatter raises \<open>TypeError\<close>. Otherwise a line is printed and
  \<open>html_with_empty_cells\<close> formats the row. The result is the markup to append and the
  lines printed.
\<close>

definition format_row ::
  "module_state \<Rightarrow> string \<Rightarrow> string \<Rightarrow> string \<Rightarrow> string \<Rightarrow> string \<Rightarrow> string \<Rightarrow>
   error + (string \<times> string list)" where
  "format_row m pdf_link statute_type title date public_private number_chapter =
     (let generator_function_name = map_html_generators m statute_type;
          generator = globals_get m generator_function_name
      in if truthy generator then
           (case generator of
              Some (Formatter f) \<Rightarrow>
                then_do (f pdf_link statute_type title date public_private number_chapter)
                  (\<lambda>html_segment. Inr (html_segment, []))
            | _ \<Rightarrow> Inl TypeError)
         else
           then_do (html_with_empty_cells pdf_link statute_type title date public_private
                      number_chapter)
             (\<lambda>html_segment. Inr (html_segment, [no_generator_message statute_type])))"

definition emit :: "gen_state \<Rightarrow> string \<times> string list \<Rightarrow> gen_state" where
  "emit st out =
     st\<lparr>html_content := html_content st @ fst out, printed := printed st @ snd out\<rparr>"

definition generate_row :: "config \<Rightarrow> module_state \<Rightarrow> gen_state \<Rightarrow> row \<Rightarrow> error + gen_state" where
  "generate_row cfg m st row =
     then_do (try_session_type row) (\<lambda>u.
     then_do (row_item row ''Session'') (\<lambda>session_cell.
     then_do (row_item row ''Type'') (\<lambda>type_cell.
     then_do (row_item row ''Title'') (\<lambda>title_cell.
     then_do (row_item row ''Date'') (\<lambda>date_cell.
     then_do (row_item row ''Number/Chapter'') (\<lambda>number_chapter_cell.
     then_do (row_item row ''PDF Start'') (\<lambda>pdf_start_cell.
       let session = py_str session_cell;
           statute_type = py_strip (py_str type_cell);
           public_private = py_str (row_get row ''Public/Private'' (Str []));
           title = (if \<not> pd_isna title_cell then py_str title_cell else []);
           date = py_str date_cell;
           number_chapter = py_str number_chapter_cell;
           pdf_start = py_str pdf_start_cell;
           st1 = session_change st session;
           pdf_link = generate_pdf_link cfg statute_type public_private pdf_start
       in then_do
            (format_row m pdf_link statute_type title date public_private number_chapter)
            (\<lambda>out. Inr (emit st1 out)))))))))"

fun generate_rows :: "config \<Rightarrow> module_state \<Rightarrow> gen_state \<Rightarrow> row list \<Rightarrow> error + gen_state" where
  "generate_rows cfg m st [] = Inr st"
| "generate_rows cfg m st (row # rows) =
     then_do (generate_row cfg m st row) (\<lambda>st'. generate_rows cfg m st' rows)"

definition generate_html :: "row list \<Rightarrow> config \<Rightarrow> module_state \<Rightarrow> error + gen_state" where
  "generate_html df cfg m =
     then_do
       (generate_rows cfg m
          \<lparr>html_content = html_header cfg, previous_session = [], printed = []\<rparr> df)
       (\<lambda>st. Inr (if previous_session st \<noteq> []
                  then st\<lparr>html_content := html_content st @ final_close\<rparr> else st))"


section \<open>The checkpoint and the audit loop\<close>

text \<open>
  The checkpoint file of an input file is \<open>None\<close> when it does not exist and its text
  otherwise. \<open>get_last_audited_row\<close> and \<open>audit_process\<close> build the same path from
  \<open>TMP_DIR\<close> and the stem of \<open>EXCEL_FILE\<close>, so one file stands for both.
\<close>

definition get_last_audited_row :: "string option \<Rightarrow> error + int" where
  "get_last_audited_row checkpoint_file =
     (case checkpoint_file of
        Some text \<Rightarrow>
          let content = py_strip text
          in if content \<noteq> [] then py_int content else Inr 0
      | None \<Rightarrow> Inr 0)"

text \<open>
  What the audit reads and changes: the data frame, the checkpoint file and the terminal.
  \<open>input(prompt)\<close> writes the prompt and takes the next line typed; at the end of the
  input it raises \<open>EOFError\<close>. Clearing the screen is left out.

  The columns of a pandas frame are typed, and what \<open>df.at[idx, "PDF Start"] = value\<close>
  does with an integer is decided by pandas from the dtype of the PDF Start column, not
  by the program: the column may keep the integer, keep the float of the same value, or
  raise an exception. \<open>pdf_start_store\<close> is that decision: the cell the column then holds
  for a given integer, or the exception raised. It belongs to the frame and is a
  parameter of the model.
\<close>

record audit_state =
  df :: "row list"
  pdf_start_store :: "int \<Rightarrow> error + cell"
  checkpoint :: "string option"
  stdout :: "string list"

definition confirm_prompt :: "row \<Rightarrow> error + string" where
  "confirm_prompt row =
     then_do (row_item row ''Session'') (\<lambda>session.
     then_do (row_item row ''Number/Chapter'') (\<lambda>number_chapter.
     then_do (row_item row ''Title'') (\<lambda>title.
     then_do (row_item row ''PDF Start'') (\<lambda>pdf_start.
       Inr (nl @ ''Is the PDF Start for:'' @ nl @ nl @ py_str session @ nl @ nl @
            py_str number_chapter @ '' - '' @ py_str title @ nl @ nl @
            ''PDF Page: '' @ py_str pdf_start @ nl @ nl @
            ''Correct? Yes (Y) or No (N) - (Enter '' @ [CHR 0x27] @ ''exit'' @ [CHR 0x27] @
            '' to stop):'')))))"

definition correction_prompt :: "row \<Rightarrow> error + string" where
  "correction_prompt row =
     then_do (row_item row ''Title'') (\<lambda>title.
     then_do (row_item row ''Session'') (\<lambda>session.
     then_do (row_item row ''Number/Chapter'') (\<lambda>number_chapter.
       Inr (nl @ ''What is the correct PDF Start for '' @ py_str title @ '', '' @
            py_str session @ ''-'' @ py_str number_chapter @
            ''? (Enter '' @ [CHR 0x27] @ ''exit'' @ [CHR 0x27] @ '' to stop) ''))))"

definition paused_message :: "config \<Rightarrow> nat \<Rightarrow> row list \<Rightarrow> string" where
  "paused_message cfg idx d =
     nl @ ''Audit process paused at row '' @
     py_str_int (int idx + 2 + int (length (SKIP_ROWS cfg))) @ '' of '' @
     py_str_int (int (length d)) @ ''.''"

definition invalid_number_message :: string where
  "invalid_number_message = ''Invalid input. Please enter a valid PDF Start value (an integer).''"

definition invalid_choice_message :: string where
  "invalid_choice_message =
     ''Invalid input. Please enter '' @ [CHR 0x27] @ ''Y'' @ [CHR 0x27] @ '', '' @
     [CHR 0x27] @ ''N'' @ [CHR 0x27] @ '', or '' @ [CHR 0x27] @ ''exit'' @ [CHR 0x27] @ ''.''"

definition say :: "string \<Rightarrow> audit_state \<Rightarrow> audit_state" where
  "say line st = st\<lparr>stdout := stdout st @ [line]\<rparr>"

text \<open>Both places that stop the audit print the same line and write the row's index.\<close>

definition pause :: "config \<Rightarrow> nat \<Rightarrow> audit_state \<Rightarrow> audit_state" where
  "pause cfg idx st =
     (say (paused_message cfg idx (df st)) st)\<lparr>checkpoint := Some (py_str_int (int idx))\<rparr>"

text \<open>
  \<open>df.at\<close> addresses one place of the frame. \<open>df_at_set\<close> puts there the cell that the
  column has made of the value, and nowhere else. The loop passes only labels of the
  frame's own index; for any other label the list is left as it is.
\<close>

definition df_at_set :: "row list \<Rightarrow> nat \<Rightarrow> string \<Rightarrow> cell \<Rightarrow> row list" where
  "df_at_set d idx column c = d[idx := (d ! idx)(column \<mapsto> c)]"

text \<open>
  The \<open>while True\<close> loop for one row, over the lines still to be typed. The conversion
  \<open>int(correct_pdf_start)\<close> and the store into the frame are both inside the \<open>try\<close>: a
  \<open>ValueError\<close> of either prints the line about a valid value and the row is asked again,
  any other exception leaves the loop. The result is
  \<open>True\<close> when the loop is left by \<open>break\<close> and \<open>False\<close> when \<open>audit_process\<close> returns
  \<open>False\<close> from inside it, with the state and the lines not yet read.
\<close>

fun audit_row ::
  "config \<Rightarrow> nat \<Rightarrow> row \<Rightarrow> string list \<Rightarrow> audit_state \<Rightarrow>
   error + (bool \<times> audit_state \<times> string list)" where
  "audit_row cfg idx row [] st =
     then_do (confirm_prompt row) (\<lambda>question. Inl EOFError)"
| "audit_row cfg idx row (user_input # inputs) st =
     then_do (confirm_prompt row) (\<lambda>question.
       let st1 = say question st in
       if py_lower user_input = ''exit'' then Inr (False, pause cfg idx st1, inputs)
       else if py_lower user_input = ''y'' then Inr (True, st1, inputs)
       else if py_lower user_input = ''n'' then
         then_do (correction_prompt row) (\<lambda>question2.
           case inputs of
             [] \<Rightarrow> Inl EOFError
           | correct_pdf_start # inputs' \<Rightarrow>
               let st2 = say question2 st1 in
               if py_lower correct_pdf_start = ''exit''
               then Inr (False, pause cfg idx st2, inputs')
               else
                 (case then_do (py_int correct_pdf_start) (pdf_start_store st2) of
                    Inr stored \<Rightarrow>
                      Inr (True, st2\<lparr>df := df_at_set (df st2) idx ''PDF Start'' stored\<rparr>,
                           inputs')
                  | Inl e \<Rightarrow>
                      if e = ValueError
                      then audit_row cfg idx row inputs' (say invalid_number_message st2)
                      else Inl e))
       else audit_row cfg idx row inputs (say invalid_choice_message st1))"

text \<open>
  The \<open>for\<close> loop over \<open>df.iterrows()\<close>: rows whose index is below \<open>last_audited_row\<close> are
  passed over, the others are asked about in order.
\<close>

fun audit_loop ::
  "config \<Rightarrow> (nat \<times> row) list \<Rightarrow> int \<Rightarrow> string list \<Rightarrow> audit_state \<Rightarrow>
   error + (bool \<times> audit_state \<times> string list)" where
  "audit_loop cfg [] last_audited_row inputs st = Inr (True, st, inputs)"
| "audit_loop cfg ((idx, row) # rest) last_audited_row inputs st =
     (if int idx < last_audited_row then audit_loop cfg rest last_audited_row inputs st
      else
        then_do (audit_row cfg idx row inputs st) (\<lambda>(finished, st', inputs').
          if finished then audit_loop cfg rest last_audited_row inputs' st'
          else Inr (False, st', inputs')))"

definition iterrows :: "row list \<Rightarrow> (nat \<times> row) list" where
  "iterrows d = zip [0..<length d] d"

definition audit_process ::
  "config \<Rightarrow> int \<Rightarrow> string list \<Rightarrow> audit_state \<Rightarrow>
   error + (bool \<times> audit_state \<times> string list)" where
  "audit_process cfg last_audited_row inputs st =
     audit_loop cfg (iterrows (df st)) last_audited_row inputs st"


section \<open>The orchestration\<close>

text \<open>
  \<open>main\<close> works on four files: the audited spreadsheet, the in-process spreadsheet, the
  HTML output and the checkpoint. A file that does not exist is \<open>None\<close>; a spreadsheet
  is given by the frame that reading it returns. The texts of the three paths that
  \<open>main\<close> prints are parameters. \<open>load_excel_file\<close> is taken by its result: the frame
  (its rows and what its PDF Start column does with an integer), or the line it prints
  before it calls \<open>exit()\<close>. A run ends by returning from \<open>main\<close>, by
  \<open>sys.exit()\<close>, or with an exception, which leaves the files as they are at that
  point.
\<close>

datatype outcome = Finished | Exited | Raised error

record world =
  audited_file :: "row list option"
  in_process_file :: "row list option"
  html_file :: "string option"
  checkpoint_file :: "string option"
  console :: "string list"

record paths =
  audited_file_path :: string
  in_process_file_path :: string
  html_output_path :: string

definition quoted :: "string \<Rightarrow> string" where
  "quoted s = [CHR 0x27] @ s @ [CHR 0x27]"

definition print_line :: "string \<Rightarrow> world \<Rightarrow> world" where
  "print_line line w = w\<lparr>console := console w @ [line]\<rparr>"

text \<open>The last three statements of \<open>main\<close>: generate, open the output for writing, write.\<close>

definition write_html ::
  "config \<Rightarrow> paths \<Rightarrow> module_state \<Rightarrow> row list \<Rightarrow> world \<Rightarrow> outcome \<times> world" where
  "write_html cfg pth m d w =
     (case generate_html d cfg m of
        Inl e \<Rightarrow> (Raised e, w)
      | Inr st \<Rightarrow>
          (Finished,
           w\<lparr>html_file := Some (html_content st),
              console := console w @ printed st @
                [''Generated HTML saved to '' @ quoted (html_output_path pth) @ ''.'']\<rparr>))"

definition main ::
  "config option \<Rightarrow> paths \<Rightarrow> module_state \<Rightarrow> string + row list \<times> (int \<Rightarrow> error + cell) \<Rightarrow>
   string list \<Rightarrow> world \<Rightarrow> outcome \<times> world" where
  "main user_config pth m loaded inputs w =
     (case user_config of
        None \<Rightarrow> (Exited, print_line ''Failed to load configuration.'' w)
      | Some cfg \<Rightarrow>
          (case audited_file w of
             Some audited \<Rightarrow>
               let w1 = print_line (nl @ ''Audited file '' @ quoted (audited_file_path pth) @
                          '' already exists.'' @ nl) w
               in (case html_file w of
                     None \<Rightarrow>
                       write_html cfg pth m audited
                         (print_line ''No corresponding HTML found. Generating HTML...'' w1)
                   | Some existing \<Rightarrow>
                       (Exited,
                        print_line (nl @ ''HTML output '' @ quoted (html_output_path pth) @
                          '' already exists. If you wish to regenerate, please delete or backup the existing file.'' @
                          nl) w1))
           | None \<Rightarrow>
               (case loaded of
                  Inl message \<Rightarrow> (Exited, print_line message w)
                | Inr (d, store) \<Rightarrow>
                    (case get_last_audited_row (checkpoint_file w) of
                       Inl e \<Rightarrow> (Raised e, w)
                     | Inr last_audited_row \<Rightarrow>
                         (case audit_process cfg last_audited_row inputs
                                 \<lparr>df = d, pdf_start_store = store,
                                  checkpoint = checkpoint_file w, stdout = console w\<rparr> of
                            Inl e \<Rightarrow> (Raised e, w)
                          | Inr (completed, st, inputs') \<Rightarrow>
                              let w1 = w\<lparr>checkpoint_file := checkpoint st, console := stdout st\<rparr>
                              in if completed then
                                   write_html cfg pth m (df st)
                                     (print_line (''Completed audit saved to '' @
                                        quoted (audited_file_path pth) @ nl @ ''.'')
                                        (w1\<lparr>audited_file := Some (df st)\<rparr>))
                                 else
                                   (Exited,
                                    print_line (nl @ ''In-process data saved to '' @
                                      quoted (in_process_file_path pth) @ ''.'' @ nl)
                                      (w1\<lparr>in_process_file := Some (df st)\<rparr>)))))))"

section \<open>Properties of the Roman numerals\<close>

lemma roman_value_symbols: "roman_value c \<noteq> None \<Longrightarrow> c \<in> set ''IVXLCDM''"
  by (simp add: roman_value_def split: if_splits)

text \<open>
  Claim C1. For every integer \<open>n\<close> from 1 to 3999, \<open>arabic_to_roman n\<close> is the numeral that
  the greedy subtractive algorithm over the table 1000/M, 900/CM, \<dots>, 4/IV, 1/I gives, it
  consists of the uppercase symbols only, and reading it back as a Roman numeral gives
  \<open>n\<close>. In particular 4 is IV, 1994 is MCMXCIV and 2024 is MMXXIV.
\<close>

theorem arabic_to_roman_correct:
  "(1 \<le> n \<and> n \<le> 3999 \<longrightarrow>
      arabic_to_roman n = greedy_roman n \<and>
      roman_to_arabic (arabic_to_roman n) = Some n \<and>
      arabic_to_roman n \<noteq> [] \<and>
      set (arabic_to_roman n) \<subseteq> set ''IVXLCDM'') \<and>
   arabic_to_roman 4 = ''IV'' \<and>
   arabic_to_roman 1994 = ''MCMXCIV'' \<and>
   arabic_to_roman 2024 = ''MMXXIV''"
proof -
  have ex: "arabic_to_roman 4 = ''IV''" "arabic_to_roman 1994 = ''MCMXCIV''"
    "arabic_to_roman 2024 = ''MMXXIV''"
    by (simp_all add: arabic_to_roman_def roman_loop.simps numeral_map_def)
  have "set (greedy_roman n) \<subseteq> set ''IVXLCDM''"
    using greedy_roman_valid [of n] roman_value_symbols by blast
  moreover have "greedy_roman n \<noteq> []" if "1 \<le> n"
    using that by (subst greedy_roman.simps) (simp add: find_numeral_map_cases)
  ultimately show ?thesis
    using ex by (simp add: arabic_to_roman_greedy roman_to_arabic_greedy)
qed

theorem arabic_to_roman_correct_witness:
  "(1::int) \<le> 1994 \<and> (1994::int) \<le> 3999 \<and>
   arabic_to_roman 1994 = greedy_roman 1994 \<and>
   roman_to_arabic (arabic_to_roman 1994) = Some 1994 \<and>
   set (arabic_to_roman 1994) \<subseteq> set ''IVXLCDM''"
proof -
  have range: "(1::int) \<le> 1994 \<and> (1994::int) \<le> 3999"
    by simp
  with arabic_to_roman_correct [of 1994] show ?thesis
    by blast
qed

section \<open>Properties of the act, resolution and appendix formatter\<close>

text \<open>The number a string of digits denotes.\<close>

definition decimal :: "string \<Rightarrow> int" where
  "decimal ds = foldl (\<lambda>acc c. 10 * acc + digit_val c) 0 ds"

lemma int_digits_all_digits:
  "\<forall>c \<in> set ds. is_digit c \<Longrightarrow>
   int_digits ds acc = Some (foldl (\<lambda>acc c. 10 * acc + digit_val c) acc ds)"
  by (induction ds arbitrary: acc) simp_all

lemma is_digit_not_space: "is_digit c \<Longrightarrow> \<not> is_space c \<and> \<not> is_int_space c"
  by (auto simp: is_digit_def is_space_def is_int_space_def)

lemma is_digit_not_sign: "is_digit c \<Longrightarrow> c \<noteq> CHR ''-'' \<and> c \<noteq> CHR ''+''"
  by (auto simp: is_digit_def)

lemma strip_unchanged:
  assumes "s \<noteq> []" and "\<not> P (hd s)" and "\<not> P (last s)"
  shows "rev (dropWhile P (rev (dropWhile P s))) = s"
proof -
  from assms have "dropWhile P s = s"
    by (cases s) simp_all
  moreover from assms have "dropWhile P (rev s) = rev s"
    by (cases "rev s") (simp_all add: hd_rev)
  ultimately show ?thesis
    by simp
qed

lemma py_strip_unchanged:
  assumes "s \<noteq> []" and "\<not> is_space (hd s)" and "\<not> is_space (last s)"
  shows "py_strip s = s"
  unfolding py_strip_def using assms by (rule strip_unchanged)

lemma int_strip_unchanged:
  assumes "s \<noteq> []" and "\<not> is_int_space (hd s)" and "\<not> is_int_space (last s)"
  shows "int_strip s = s"
  unfolding int_strip_def using assms by (rule strip_unchanged)

lemma py_int_digits:
  assumes "ds \<noteq> []" and "\<forall>c \<in> set ds. is_digit c"
  shows "py_int ds = Inr (decimal ds)"
proof -
  from assms obtain c cs where ds: "ds = c # cs"
    by (cases ds) auto
  from assms have "is_digit (hd ds)" and "is_digit (last ds)"
    by simp_all
  with assms have strip: "int_strip ds = ds"
    by (intro int_strip_unchanged) (simp_all add: is_digit_not_space)
  from assms ds have c: "is_digit c" and cs: "\<forall>c \<in> set cs. is_digit c"
    by simp_all
  from c cs have "int_literal ds = Some (decimal ds)"
    by (simp add: ds int_literal_def decimal_def int_digits_all_digits)
  with strip c is_digit_not_sign [OF c] show ?thesis
    by (simp add: py_int_def ds)
qed


text \<open>The first run of digits of a string, in words of its own.\<close>

definition first_digits :: "string \<Rightarrow> string" where
  "first_digits s = takeWhile is_digit (dropWhile (\<lambda>c. \<not> is_digit c) s)"

lemma first_digits_nonempty:
  "\<exists>c \<in> set s. is_digit c \<Longrightarrow> first_digits s \<noteq> []"
  unfolding first_digits_def by (induction s) auto

lemma first_digits_all_digits: "list_all is_digit (first_digits s)"
proof -
  have "list_all P (takeWhile P xs)" for P :: "char \<Rightarrow> bool" and xs
    by (induction xs) simp_all
  then show ?thesis
    by (simp add: first_digits_def)
qed

lemma first_digits_split:
  "s = takeWhile (\<lambda>c. \<not> is_digit c) s @ first_digits s @
       dropWhile is_digit (dropWhile (\<lambda>c. \<not> is_digit c) s)"
  by (simp add: first_digits_def)

lemma first_digits_before:
  "list_all (\<lambda>c. \<not> is_digit c) (takeWhile (\<lambda>c. \<not> is_digit c) s)"
  by (induction s) simp_all

lemma first_digits_after:
  "\<not> list_ex is_digit (take 1 (dropWhile is_digit (dropWhile (\<lambda>c. \<not> is_digit c) s)))"
proof -
  have "\<not> list_ex P (take 1 (dropWhile P xs))" for P :: "char \<Rightarrow> bool" and xs
    by (induction xs) simp_all
  then show ?thesis .
qed

lemma search_digits_first_digits:
  "\<exists>c \<in> set s. is_digit c \<Longrightarrow> search_digits s = Some (first_digits s)"
  unfolding search_digits_def first_digits_def by (induction s) auto

text \<open>
  Claim C2, as amended. For every input whose \<open>number_chapter\<close> contains a digit, the
  formatter returns a table row whose first cell is the anchor-linked statute type, whose
  second cell holds the public/private value, whose third cell is the title prefixed with
  the Roman numeral of the number that the first run of digits denotes and \<open>". "\<close>, and
  whose fourth cell is the date.
\<close>

theorem html_for_act_resolution_appendix_row:
  assumes "\<exists>c \<in> set number_chapter. is_digit c"
  shows "html_for_act_resolution_appendix pdf_link statute_type title date public_private
           number_chapter =
         Inr (table_row (td (anchor pdf_link statute_type)) (td public_private)
                (td (arabic_to_roman (decimal (first_digits number_chapter)) @ ''. '' @ title))
                (td date))"
proof -
  from first_digits_nonempty [OF assms] first_digits_all_digits [of number_chapter]
  have "first_digits number_chapter \<noteq> []"
    and "\<forall>c \<in> set (first_digits number_chapter). is_digit c"
    by (simp_all add: list_all_iff)
  then have "py_int (first_digits number_chapter) = Inr (decimal (first_digits number_chapter))"
    by (rule py_int_digits)
  with search_digits_first_digits [OF assms] show ?thesis
    by (simp add: html_for_act_resolution_appendix_def)
qed


lemma first_digits_example: "first_digits ''No. 4'' = ''4''"
  by (simp add: first_digits_def is_digit_def)

lemma arabic_to_roman_4: "arabic_to_roman 4 = ''IV''"
  by (simp add: arabic_to_roman_def roman_loop.simps numeral_map_def)

theorem html_for_act_resolution_appendix_row_witness:
  "(\<exists>c \<in> set ''No. 4''. is_digit c) \<and>
   html_for_act_resolution_appendix ''u'' ''Act'' ''T'' ''D'' ''Public'' ''No. 4'' =
     Inr (table_row (td (anchor ''u'' ''Act'')) (td ''Public'') (td ''IV. T'') (td ''D''))"
proof -
  have digit: "\<exists>c \<in> set ''No. 4''. is_digit c"
    by (simp add: is_digit_def)
  have numeral: "arabic_to_roman (decimal (first_digits ''No. 4'')) = ''IV''"
    by (simp add: first_digits_example decimal_def digit_val_def arabic_to_roman_4)
  from html_for_act_resolution_appendix_row [OF digit, of "''u''" "''Act''" "''T''" "''D''" "''Public''"]
  have "html_for_act_resolution_appendix ''u'' ''Act'' ''T'' ''D'' ''Public'' ''No. 4'' =
     Inr (table_row (td (anchor ''u'' ''Act'')) (td ''Public'') (td ''IV. T'') (td ''D''))"
    by (simp only: numeral append.simps)
  with digit show ?thesis
    by (rule conjI)
qed


text \<open>
  The claim as it was stated asks for an empty second cell. The row of a public act has
  \<open>Public\<close> there.
\<close>

theorem html_for_act_resolution_appendix_counterexample:
  "html_for_act_resolution_appendix ''u'' ''Act'' ''T'' ''D'' ''Public'' ''No. 4'' \<noteq>
     Inr (table_row (td (anchor ''u'' ''Act'')) (td []) (td ''IV. T'') (td ''D''))"
proof -
  have digit: "\<exists>c \<in> set ''No. 4''. is_digit c"
    by (simp add: is_digit_def)
  have "search_digits ''No. 4'' = Some ''4''"
    using search_digits_first_digits [OF digit] by (simp only: first_digits_example)
  moreover have "py_int ''4'' = Inr 4"
    by (simp add: py_int_digits is_digit_def decimal_def digit_val_def)
  ultimately have "html_for_act_resolution_appendix ''u'' ''Act'' ''T'' ''D'' ''Public'' ''No. 4'' =
     Inr (table_row (td (anchor ''u'' ''Act'')) (td ''Public'') (td ''IV. T'') (td ''D''))"
    by (simp add: html_for_act_resolution_appendix_def arabic_to_roman_4)
  moreover have "td ''Public'' \<noteq> td []"
    by (simp add: td_def)
  ultimately show ?thesis
    by (simp add: table_row_def)
qed

section \<open>Properties of the HTML generation\<close>

text \<open>
  What a row adds to the output does not depend on the state of the loop: the markup of
  its formatter and the lines printed for it. \<open>row_output\<close> is that part of the loop body.
\<close>

definition row_output :: "config \<Rightarrow> module_state \<Rightarrow> row \<Rightarrow> error + (string \<times> string list)" where
  "row_output cfg m row =
     then_do (try_session_type row) (\<lambda>u.
     then_do (row_item row ''Session'') (\<lambda>session_cell.
     then_do (row_item row ''Type'') (\<lambda>type_cell.
     then_do (row_item row ''Title'') (\<lambda>title_cell.
     then_do (row_item row ''Date'') (\<lambda>date_cell.
     then_do (row_item row ''Number/Chapter'') (\<lambda>number_chapter_cell.
     then_do (row_item row ''PDF Start'') (\<lambda>pdf_start_cell.
       let statute_type = py_strip (py_str type_cell);
           public_private = py_str (row_get row ''Public/Private'' (Str []));
           title = (if \<not> pd_isna title_cell then py_str title_cell else []);
           date = py_str date_cell;
           number_chapter = py_str number_chapter_cell;
           pdf_start = py_str pdf_start_cell;
           pdf_link = generate_pdf_link cfg statute_type public_private pdf_start
       in format_row m pdf_link statute_type title date public_private
            number_chapter)))))))"

lemma generate_row_output:
  assumes "row ''Session'' = Some c"
  shows "generate_row cfg m st row =
         then_do (row_output cfg m row) (\<lambda>out. Inr (emit (session_change st (py_str c)) out))"
  using assms
  by (simp add: generate_row_def row_output_def then_do_def row_item_def Let_def
      split: sum.splits option.splits)

lemma generate_row_ok:
  assumes "row ''Session'' = Some c" and "row_output cfg m row = Inr out"
  shows "generate_row cfg m st row = Inr (emit (session_change st (py_str c)) out)"
  using assms by (simp add: generate_row_output then_do_def)

lemma generate_rows_ok:
  assumes "row ''Session'' = Some c" and "row_output cfg m row = Inr out"
  shows "generate_rows cfg m st (row # rows) =
         generate_rows cfg m (emit (session_change st (py_str c)) out) rows"
  using assms by (simp add: generate_row_ok then_do_def)

lemma session_change_same:
  "session = previous_session st \<Longrightarrow> session_change st session = st"
  by (simp add: session_change_def)

lemma session_change_blank:
  "session_change st [] =
     st\<lparr>html_content := html_content st @ (if previous_session st = [] then [] else table_close),
        previous_session := []\<rparr>"
  by (simp add: session_change_def)

lemma session_change_new:
  "session \<noteq> [] \<Longrightarrow> session \<noteq> previous_session st \<Longrightarrow>
   session_change st session =
     st\<lparr>html_content := html_content st @
          (if previous_session st = [] then [] else table_close) @ table_open session,
        previous_session := session\<rparr>"
  by (simp add: session_change_def)


text \<open>Concrete inputs: a configuration, a module state and rows of a spreadsheet.\<close>

definition example_config :: config where
  "example_config =
     \<lparr>CONGRESS = ''1st Congress'', CONGRESS_START_DATE = ''1789'',
      CONGRESS_END_DATE = ''1791'', PUBLIC_PDF_URL = ''public.pdf'',
      PRIVATE_PDF_URL = ''private.pdf'', SKIP_ROWS = []\<rparr>"

definition example_module :: module_state where
  "example_module =
     \<lparr>html_generator_mappings =
        [''Law'' \<mapsto> ''html_for_law'', ''Act'' \<mapsto> ''html_for_act_resolution_appendix''],
      other_globals =
        [''user_config'' \<mapsto> Object True, ''html_generator_mappings'' \<mapsto> Object True]\<rparr>"

definition example_row :: "cell \<Rightarrow> string \<Rightarrow> cell \<Rightarrow> row" where
  "example_row session statute_type number_chapter =
     [''Session'' \<mapsto> session, ''Type'' \<mapsto> Str statute_type,
      ''Public/Private'' \<mapsto> Str ''Public'', ''Title'' \<mapsto> Str ''An Act'',
      ''Date'' \<mapsto> Str ''1789'', ''Number/Chapter'' \<mapsto> number_chapter,
      ''PDF Start'' \<mapsto> Num 23]"

definition example_law_segment :: string where
  "example_law_segment =
     table_row (td (anchor ''public.pdf#page=23'' ''1'')) (td ''Public'') (td ''An Act'')
       (td ''1789'')"

lemma py_str_int_23: "py_str_int 23 = ''23''"
  by (simp add: py_str_int_def nat_digits.simps digit_char_def)

lemma py_strip_Law: "py_strip ''Law'' = ''Law''"
  by (simp add: py_strip_def is_space_def)

lemma globals_get_html_for_law:
  "globals_get example_module (Some ''html_for_law'') = Some (Formatter html_for_law)"
  by (simp add: globals_get_def source_globals_def)

lemma map_html_generators_Law:
  "map_html_generators example_module ''Law'' = Some ''html_for_law''"
  by (simp add: map_html_generators_def example_module_def)

lemma example_law_row_output:
  "row_output example_config example_module (example_row session ''Law'' (Str ''1'')) =
     Inr (example_law_segment, [])"
  by (simp add: row_output_def try_session_type_def then_do_def row_item_def row_get_def
      example_row_def py_strip_Law py_str_int_23 generate_pdf_link_def example_config_def
      format_row_def map_html_generators_Law globals_get_html_for_law Let_def
      html_for_law_def example_law_segment_def)

text \<open>
  Claim C3, as amended. A row whose session is the empty string never opens a table. When
  a table is open it closes that table and the remembered session becomes empty; when no
  table is open it changes neither. In both cases the row's markup is appended after
  that.
\<close>

theorem blank_session_row:
  assumes "row ''Session'' = Some c" and "py_str c = []"
    and "row_output cfg m row = Inr (segment, messages)"
  shows "generate_row cfg m st row =
         Inr \<lparr>html_content =
                html_content st @ (if previous_session st = [] then [] else table_close) @
                segment,
              previous_session = [],
              printed = printed st @ messages\<rparr>"
  using assms by (simp add: generate_row_ok session_change_blank emit_def)

theorem blank_session_row_witness:
  "example_row (Str []) ''Law'' (Str ''1'') ''Session'' = Some (Str []) \<and>
   py_str (Str []) = [] \<and>
   row_output example_config example_module (example_row (Str []) ''Law'' (Str ''1'')) =
     Inr (example_law_segment, []) \<and>
   generate_row example_config example_module
     \<lparr>html_content = table_open ''A'', previous_session = ''A'', printed = []\<rparr>
     (example_row (Str []) ''Law'' (Str ''1'')) =
     Inr \<lparr>html_content = table_open ''A'' @ table_close @ example_law_segment,
          previous_session = [], printed = []\<rparr>"
proof -
  have session: "example_row (Str []) ''Law'' (Str ''1'') ''Session'' = Some (Str [])"
    by (simp add: example_row_def)
  have blank: "py_str (Str []) = []"
    by simp
  note out = example_law_row_output [of "Str []"]
  from blank_session_row [OF session blank out,
      of "\<lparr>html_content = table_open ''A'', previous_session = ''A'', printed = []\<rparr>"]
  show ?thesis
    using session out by simp
qed

text \<open>
  A missing session cell is \<open>NaN\<close>, which \<open>str\<close> turns into the string \<open>nan\<close> before
  \<open>pd.isna\<close> is asked: the row closes the open table and opens one headed \<open>nan\<close>.
\<close>

lemma missing_session_row:
  assumes "row ''Session'' = Some NaN" and "row_output cfg m row = Inr (segment, messages)"
    and "previous_session st = ''A''"
  shows "generate_row cfg m st row =
         Inr \<lparr>html_content = html_content st @ table_close @ table_open ''nan'' @ segment,
              previous_session = ''nan'',
              printed = printed st @ messages\<rparr>"
  using assms
  by (simp add: generate_row_ok [where row = row and c = NaN] session_change_def emit_def)

text \<open>
  The claim as it was stated lets such a row leave the open table and the remembered
  session alone. After a row of session \<open>A\<close>, a row with an empty session closes the table
  of \<open>A\<close> and the remembered session is no longer \<open>A\<close>.
\<close>

theorem blank_session_row_counterexample:
  "generate_row example_config example_module
     \<lparr>html_content = table_open ''A'', previous_session = ''A'', printed = []\<rparr>
     (example_row (Str []) ''Law'' (Str ''1'')) \<noteq>
   Inr \<lparr>html_content = table_open ''A'' @ example_law_segment,
        previous_session = ''A'', printed = []\<rparr>"
proof -
  have session: "example_row (Str []) ''Law'' (Str ''1'') ''Session'' = Some (Str [])"
    by (simp add: example_row_def)
  show ?thesis
    by (simp add: generate_row_ok [OF session example_law_row_output] session_change_blank
        emit_def)
qed


lemma row_output_fields:
  assumes "row ''Session'' = Some session_cell" and "row ''Type'' = Some type_cell"
    and "row ''Title'' = Some title_cell" and "row ''Date'' = Some date_cell"
    and "row ''Number/Chapter'' = Some number_chapter_cell"
    and "row ''PDF Start'' = Some pdf_start_cell"
  shows "row_output cfg m row =
         format_row m
           (generate_pdf_link cfg (py_strip (py_str type_cell))
              (py_str (row_get row ''Public/Private'' (Str []))) (py_str pdf_start_cell))
           (py_strip (py_str type_cell))
           (if \<not> pd_isna title_cell then py_str title_cell else [])
           (py_str date_cell)
           (py_str (row_get row ''Public/Private'' (Str [])))
           (py_str number_chapter_cell)"
  using assms
  by (simp add: row_output_def try_session_type_def then_do_def row_item_def Let_def)

lemma format_row_fallback:
  assumes "globals_get m (html_generator_mappings m statute_type) = None"
  shows "format_row m pdf_link statute_type title date public_private number_chapter =
         Inr (table_row (td_empty (anchor pdf_link statute_type)) (td []) (td []) (td []),
              [no_generator_message statute_type])"
  using assms
  by (simp add: format_row_def map_html_generators_def html_with_empty_cells_def then_do_def)

text \<open>
  Claim C6, as amended. For every row that has the columns the loop reads and whose
  statute type has no entry in the mapping from statute types to generator names, or
  whose mapped name is not bound in the namespace of the module, the loop does not
  raise at that row: it prints a line, appends the output of the empty-cells formatter
  (the anchor-linked type in a cell marked \<open>type="empty"\<close> and three blank cells) and goes
  on with the next row.
\<close>

theorem unknown_statute_type_falls_back:
  assumes "row ''Session'' = Some session_cell" and "row ''Type'' = Some type_cell"
    and "row ''Title'' = Some title_cell" and "row ''Date'' = Some date_cell"
    and "row ''Number/Chapter'' = Some number_chapter_cell"
    and "row ''PDF Start'' = Some pdf_start_cell"
    and "statute_type = py_strip (py_str type_cell)"
    and "html_generator_mappings m statute_type = None \<or>
         globals_get m (html_generator_mappings m statute_type) = None"
  shows "generate_rows cfg m st (row # rows) =
         generate_rows cfg m
           (emit (session_change st (py_str session_cell))
              (table_row
                 (td_empty
                    (anchor
                       (generate_pdf_link cfg statute_type
                          (py_str (row_get row ''Public/Private'' (Str [])))
                          (py_str pdf_start_cell))
                       statute_type))
                 (td []) (td []) (td []),
               [no_generator_message statute_type]))
           rows"
proof -
  from assms(8) have "globals_get m (html_generator_mappings m statute_type) = None"
    by (auto simp: globals_get_def)
  with assms(1-7) have "row_output cfg m row =
      Inr (table_row
             (td_empty
                (anchor
                   (generate_pdf_link cfg statute_type
                      (py_str (row_get row ''Public/Private'' (Str [])))
                      (py_str pdf_start_cell))
                   statute_type))
             (td []) (td []) (td []),
           [no_generator_message statute_type])"
    by (simp add: row_output_fields format_row_fallback)
  then show ?thesis
    by (rule generate_rows_ok [where row = row and c = session_cell, OF assms(1)])
qed

lemma py_strip_Seal: "py_strip ''Seal'' = ''Seal''"
  by (simp add: py_strip_def is_space_def)

lemma html_generator_mappings_Seal:
  "html_generator_mappings example_module ''Seal'' = None"
  by (simp add: example_module_def)

theorem unknown_statute_type_falls_back_witness:
  "example_row (Str ''A'') ''Seal'' (Str ''1'') ''Session'' = Some (Str ''A'') \<and>
   example_row (Str ''A'') ''Seal'' (Str ''1'') ''Type'' = Some (Str ''Seal'') \<and>
   html_generator_mappings example_module ''Seal'' = None \<and>
   generate_rows example_config example_module
     \<lparr>html_content = [], previous_session = [], printed = []\<rparr>
     [example_row (Str ''A'') ''Seal'' (Str ''1'')] =
   Inr \<lparr>html_content =
          table_open ''A'' @
          table_row (td_empty (anchor ''public.pdf#page=23'' ''Seal'')) (td []) (td []) (td []),
        previous_session = ''A'',
        printed = [no_generator_message ''Seal'']\<rparr>"
proof -
  let ?row = "example_row (Str ''A'') ''Seal'' (Str ''1'')"
  have fields: "?row ''Session'' = Some (Str ''A'')" "?row ''Type'' = Some (Str ''Seal'')"
    "?row ''Title'' = Some (Str ''An Act'')" "?row ''Date'' = Some (Str ''1789'')"
    "?row ''Number/Chapter'' = Some (Str ''1'')" "?row ''PDF Start'' = Some (Num 23)"
    by (simp_all add: example_row_def)
  have type: "''Seal'' = py_strip (py_str (Str ''Seal''))"
    by (simp add: py_strip_Seal)
  have unknown: "html_generator_mappings example_module ''Seal'' = None \<or>
      globals_get example_module (html_generator_mappings example_module ''Seal'') = None"
    by (simp add: html_generator_mappings_Seal)
  have pp: "row_get ?row ''Public/Private'' (Str []) = Str ''Public''"
    by (simp add: row_get_def example_row_def)
  from unknown_statute_type_falls_back [OF fields type unknown, of example_config
      "\<lparr>html_content = [], previous_session = [], printed = []\<rparr>" "[]"]
  show ?thesis
    using fields(1,2) html_generator_mappings_Seal
    by (simp add: pp py_str_int_23 generate_pdf_link_def example_config_def emit_def
        session_change_def)
qed

text \<open>
  The claim as it was stated also covers a mapped name that is bound to something other
  than a function. \<open>os\<close> is bound to a module: it is true, it is called, and the call
  raises \<open>TypeError\<close>.
\<close>

theorem unknown_statute_type_counterexample:
  "generate_html [example_row (Str ''A'') ''Seal'' (Str ''1'')] example_config
     (example_module\<lparr>html_generator_mappings := [''Seal'' \<mapsto> ''os'']\<rparr>) =
   Inl TypeError"
proof -
  let ?row = "example_row (Str ''A'') ''Seal'' (Str ''1'')"
  let ?m = "example_module\<lparr>html_generator_mappings := [''Seal'' \<mapsto> ''os'']\<rparr>"
  have fields: "?row ''Session'' = Some (Str ''A'')" "?row ''Type'' = Some (Str ''Seal'')"
    "?row ''Title'' = Some (Str ''An Act'')" "?row ''Date'' = Some (Str ''1789'')"
    "?row ''Number/Chapter'' = Some (Str ''1'')" "?row ''PDF Start'' = Some (Num 23)"
    by (simp_all add: example_row_def)
  have "globals_get ?m (map_html_generators ?m ''Seal'') = Some (Object True)"
    by (simp add: globals_get_def map_html_generators_def source_globals_def)
  then have "format_row ?m pdf_link ''Seal'' title date public_private number_chapter =
      Inl TypeError" for pdf_link title date public_private number_chapter
    by (simp add: format_row_def)
  then have "row_output example_config ?m ?row = Inl TypeError"
    by (simp add: row_output_fields [OF fields] py_strip_Seal)
  then show ?thesis
    by (simp add: generate_html_def
        generate_row_output [where row = ?row and c = "Str ''A''"] fields(1) then_do_def)
qed


lemma py_strip_Act: "py_strip ''Act'' = ''Act''"
  by (simp add: py_strip_def is_space_def)

lemma example_act_row_output:
  "row_output example_config example_module (example_row session ''Act'' NaN) =
     Inl AttributeError"
proof -
  let ?row = "example_row session ''Act'' NaN"
  have fields: "?row ''Session'' = Some session" "?row ''Type'' = Some (Str ''Act'')"
    "?row ''Title'' = Some (Str ''An Act'')" "?row ''Date'' = Some (Str ''1789'')"
    "?row ''Number/Chapter'' = Some NaN" "?row ''PDF Start'' = Some (Num 23)"
    by (simp_all add: example_row_def)
  have "globals_get example_module (map_html_generators example_module ''Act'') =
      Some (Formatter html_for_act_resolution_appendix)"
    by (simp add: globals_get_def map_html_generators_def source_globals_def
        example_module_def)
  moreover have "search_digits ''nan'' = None"
    by (simp add: search_digits_def is_digit_def)
  ultimately have "format_row example_module pdf_link ''Act'' title date public_private ''nan'' =
      Inl AttributeError" for pdf_link title date public_private
    by (simp add: format_row_def html_for_act_resolution_appendix_def then_do_def)
  then show ?thesis
    by (simp add: row_output_fields [OF fields] py_strip_Act)
qed

lemma generate_html_first_row_error:
  assumes "row ''Session'' = Some c" and "row_output cfg m row = Inl e"
  shows "generate_html (row # rows) cfg m = Inl e"
  using assms(2)
  by (simp add: generate_html_def generate_row_output [where row = row and c = c] assms(1)
      then_do_def)

text \<open>
  Claim C4. A row with a missing or malformed field should be reported and skipped, and
  no field of a row should make \<open>generate_html\<close> raise. The code does not do that: an act
  whose Number/Chapter cell is empty (\<open>NaN\<close>, which has no digit) ends the generation with
  \<open>AttributeError\<close>, although a well-formed row follows it, and a frame without a Title
  column ends it with \<open>KeyError\<close>. Nothing is printed for either.
\<close>

theorem generate_html_bad_row_raises:
  "generate_html
     [example_row (Str ''A'') ''Act'' NaN, example_row (Str ''A'') ''Law'' (Str ''1'')]
     example_config example_module = Inl AttributeError \<and>
   generate_html [(example_row (Str ''A'') ''Law'' (Str ''1''))(''Title'' := None)]
     example_config example_module = Inl KeyError"
proof -
  have "example_row (Str ''A'') ''Act'' NaN ''Session'' = Some (Str ''A'')"
    by (simp add: example_row_def)
  then have "generate_html
     [example_row (Str ''A'') ''Act'' NaN, example_row (Str ''A'') ''Law'' (Str ''1'')]
     example_config example_module = Inl AttributeError"
    using example_act_row_output by (rule generate_html_first_row_error)
  moreover have "generate_html [(example_row (Str ''A'') ''Law'' (Str ''1''))(''Title'' := None)]
     example_config example_module = Inl KeyError"
    by (simp add: generate_html_def generate_row_def try_session_type_def then_do_def
        row_item_def example_row_def)
  ultimately show ?thesis
    by (rule conjI)
qed

text \<open>
  When every row is formatted without an exception, rows of sessions \<open>a, a, b, b, b\<close>
  give two tables: the first holds the markup of the first two rows and the second that
  of the last three, in the order of the input, and the second table is closed after
  the loop.
\<close>

lemma generate_html_two_sessions:
  assumes "a \<noteq> []" and "b \<noteq> []" and "a \<noteq> b"
    and "r1 ''Session'' = Some c1" and "py_str c1 = a" and "row_output cfg m r1 = Inr (s1, p1)"
    and "r2 ''Session'' = Some c2" and "py_str c2 = a" and "row_output cfg m r2 = Inr (s2, p2)"
    and "r3 ''Session'' = Some c3" and "py_str c3 = b" and "row_output cfg m r3 = Inr (s3, p3)"
    and "r4 ''Session'' = Some c4" and "py_str c4 = b" and "row_output cfg m r4 = Inr (s4, p4)"
    and "r5 ''Session'' = Some c5" and "py_str c5 = b" and "row_output cfg m r5 = Inr (s5, p5)"
  shows "generate_html [r1, r2, r3, r4, r5] cfg m =
         Inr \<lparr>html_content =
                html_header cfg @ table_open a @ s1 @ s2 @ table_close @
                table_open b @ s3 @ s4 @ s5 @ final_close,
              previous_session = b,
              printed = p1 @ p2 @ p3 @ p4 @ p5\<rparr>"
proof -
  let ?st0 = "\<lparr>html_content = html_header cfg, previous_session = [], printed = []\<rparr>"
  let ?st1 = "\<lparr>html_content = html_header cfg @ table_open a @ s1, previous_session = a,
                printed = p1\<rparr>"
  let ?st2 = "\<lparr>html_content = html_header cfg @ table_open a @ s1 @ s2,
                previous_session = a, printed = p1 @ p2\<rparr>"
  let ?st3 = "\<lparr>html_content = html_header cfg @ table_open a @ s1 @ s2 @ table_close @
                  table_open b @ s3,
                previous_session = b, printed = p1 @ p2 @ p3\<rparr>"
  let ?st4 = "\<lparr>html_content = html_header cfg @ table_open a @ s1 @ s2 @ table_close @
                  table_open b @ s3 @ s4,
                previous_session = b, printed = p1 @ p2 @ p3 @ p4\<rparr>"
  let ?st5 = "\<lparr>html_content = html_header cfg @ table_open a @ s1 @ s2 @ table_close @
                  table_open b @ s3 @ s4 @ s5,
                previous_session = b, printed = p1 @ p2 @ p3 @ p4 @ p5\<rparr>"
  have 1: "generate_row cfg m ?st0 r1 = Inr ?st1"
    using assms(1) by (simp add: generate_row_ok [OF assms(4) assms(6)] assms(5)
        session_change_def emit_def)
  have 2: "generate_row cfg m ?st1 r2 = Inr ?st2"
    by (simp add: generate_row_ok [OF assms(7) assms(9)] assms(8) session_change_def emit_def)
  have 3: "generate_row cfg m ?st2 r3 = Inr ?st3"
    using assms(1-3) by (simp add: generate_row_ok [OF assms(10) assms(12)] assms(11)
        session_change_def emit_def)
  have 4: "generate_row cfg m ?st3 r4 = Inr ?st4"
    by (simp add: generate_row_ok [OF assms(13) assms(15)] assms(14) session_change_def
        emit_def)
  have 5: "generate_row cfg m ?st4 r5 = Inr ?st5"
    by (simp add: generate_row_ok [OF assms(16) assms(18)] assms(17) session_change_def
        emit_def)
  have "generate_rows cfg m ?st0 [r1, r2, r3, r4, r5] = Inr ?st5"
    by (simp add: 1 2 3 4 5 then_do_def)
  with assms(2) show ?thesis
    by (simp add: generate_html_def then_do_def)
qed

text \<open>
  Claim C5. Rows of sessions \<open>A, A, B, B, B\<close> should give exactly two tables whatever the
  other fields hold. The code gives none when one of the rows makes a formatter raise:
  here the first row is an act with an empty Number/Chapter cell.
\<close>

theorem generate_html_sessions_raises:
  "generate_html
     [example_row (Str ''A'') ''Act'' NaN, example_row (Str ''A'') ''Law'' (Str ''1''),
      example_row (Str ''B'') ''Law'' (Str ''1''), example_row (Str ''B'') ''Law'' (Str ''1''),
      example_row (Str ''B'') ''Law'' (Str ''1'')]
     example_config example_module = Inl AttributeError"
proof -
  have "example_row (Str ''A'') ''Act'' NaN ''Session'' = Some (Str ''A'')"
    by (simp add: example_row_def)
  then show ?thesis
    using example_act_row_output by (rule generate_html_first_row_error)
qed

section \<open>Properties of the checkpoint and the audit loop\<close>

lemma digit_char_cases:
  assumes "d < 10"
  shows "is_digit (digit_char d) \<and> digit_val (digit_char d) = int d"
proof -
  from assms have "d \<in> {0, 1, 2, 3, 4, 5, 6, 7, 8, 9}"
    by auto
  then show ?thesis
    by (auto simp: digit_char_def is_digit_def digit_val_def)
qed

lemma nat_digits_nonempty: "nat_digits n \<noteq> []"
  by (subst nat_digits.simps) simp

lemma nat_digits_digits: "\<forall>c \<in> set (nat_digits n). is_digit c"
proof (induction n rule: nat_digits.induct)
  case (1 n)
  show ?case
  proof (cases "n < 10")
    case True
    then show ?thesis
      by (subst nat_digits.simps) (simp add: digit_char_cases)
  next
    case False
    with "1.IH" have "\<forall>c \<in> set (nat_digits (n div 10)). is_digit c"
      by simp
    with False show ?thesis
      by (subst nat_digits.simps) (simp add: digit_char_cases)
  qed
qed

lemma decimal_snoc: "decimal (ds @ [c]) = 10 * decimal ds + digit_val c"
  by (simp add: decimal_def)

lemma decimal_nat_digits: "decimal (nat_digits n) = int n"
proof (induction n rule: nat_digits.induct)
  case (1 n)
  show ?case
  proof (cases "n < 10")
    case True
    then show ?thesis
      by (subst nat_digits.simps) (simp add: decimal_def digit_char_cases)
  next
    case False
    with "1.IH" have "decimal (nat_digits (n div 10)) = int (n div 10)"
      by simp
    moreover have "10 * int (n div 10) + int (n mod 10) = int n"
      by presburger
    ultimately show ?thesis
      using False by (subst nat_digits.simps) (simp add: decimal_snoc digit_char_cases)
  qed
qed

lemma py_int_str_nat: "py_int (py_str_int (int k)) = Inr (int k)"
  by (simp add: py_str_int_def py_int_digits nat_digits_nonempty nat_digits_digits
      decimal_nat_digits)

lemma py_strip_nat_digits: "py_strip (nat_digits k) = nat_digits k"
proof (rule py_strip_unchanged)
  show "nat_digits k \<noteq> []"
    by (rule nat_digits_nonempty)
  have "is_digit (hd (nat_digits k))" and "is_digit (last (nat_digits k))"
    using nat_digits_digits [of k] nat_digits_nonempty [of k] by simp_all
  then show "\<not> is_space (hd (nat_digits k))" and "\<not> is_space (last (nat_digits k))"
    by (simp_all add: is_digit_not_space)
qed

lemma get_last_audited_row_written:
  "get_last_audited_row (Some (py_str_int (int k))) = Inr (int k)"
  using py_int_str_nat [of k]
  by (simp add: get_last_audited_row_def py_str_int_def py_strip_nat_digits
      nat_digits_nonempty)

lemma py_strip_blank:
  assumes "list_all is_space text"
  shows "py_strip text = []"
proof -
  from assms have "dropWhile is_space text = []"
    by (simp add: list_all_iff)
  then show ?thesis
    by (simp only: py_strip_def rev.simps dropWhile.simps)
qed

lemma audit_loop_skip:
  "\<forall>p \<in> set skipped. int (fst p) < last_audited_row \<Longrightarrow>
   audit_loop cfg (skipped @ rest) last_audited_row inputs st =
   audit_loop cfg rest last_audited_row inputs st"
  by (induction skipped) auto

lemma iterrows_split:
  assumes "k < length d"
  shows "iterrows d = take k (iterrows d) @ (k, d ! k) # drop (Suc k) (iterrows d)"
proof -
  from assms have "k < length (iterrows d)"
    by (simp add: iterrows_def)
  then have "iterrows d = take k (iterrows d) @ iterrows d ! k # drop (Suc k) (iterrows d)"
    by (rule id_take_nth_drop)
  moreover from assms have "iterrows d ! k = (k, d ! k)"
    by (simp add: iterrows_def)
  ultimately show ?thesis
    by simp
qed

lemma iterrows_take_less: "p \<in> set (take k (iterrows d)) \<Longrightarrow> fst p < k"
proof -
  assume "p \<in> set (take k (iterrows d))"
  then have "p \<in> set (zip (take k [0..<length d]) (take k d))"
    by (simp add: iterrows_def take_zip)
  moreover obtain i r where p: "p = (i, r)"
    by (cases p)
  ultimately have "i \<in> set (take k [0..<length d])"
    by (auto dest: set_zip_leftD)
  with p have "fst p \<in> set (take k [0..<length d])"
    by simp
  then show "fst p < k"
    by (auto simp: in_set_conv_nth)
qed

lemma audit_process_resume:
  assumes "k < length (df st)"
  shows "audit_process cfg (int k) inputs st =
         then_do (audit_row cfg k (df st ! k) inputs st) (\<lambda>(finished, st', inputs').
           if finished then audit_loop cfg (drop (Suc k) (iterrows (df st))) (int k) inputs' st'
           else Inr (False, st', inputs'))"
proof -
  have "\<forall>p \<in> set (take k (iterrows (df st))). int (fst p) < int k"
    by (auto dest: iterrows_take_less)
  then have "audit_loop cfg (take k (iterrows (df st)) @ (k, df st ! k) #
        drop (Suc k) (iterrows (df st))) (int k) inputs st =
      audit_loop cfg ((k, df st ! k) # drop (Suc k) (iterrows (df st))) (int k) inputs st"
    by (rule audit_loop_skip)
  with iterrows_split [OF assms] show ?thesis
    by (simp add: audit_process_def)
qed


lemma py_lower_char_e: "py_lower_char a = CHR ''e'' \<Longrightarrow> a = CHR ''e'' \<or> a = CHR ''E''"
  by (cases a) (auto simp: py_lower_char_def Let_def split: if_splits)

lemma py_lower_char_t: "py_lower_char a = CHR ''t'' \<Longrightarrow> a = CHR ''t'' \<or> a = CHR ''T''"
  by (cases a) (auto simp: py_lower_char_def Let_def split: if_splits)

text \<open>The word that stops the audit is not a number.\<close>

lemma py_int_exit:
  assumes "py_lower s = ''exit''"
  shows "py_int s = Inl ValueError"
proof -
  from assms obtain a b c d where s: "s = [a, b, c, d]"
    and a: "py_lower_char a = CHR ''e''" and d: "py_lower_char d = CHR ''t''"
    by (auto simp: py_lower_def)
  from py_lower_char_e [OF a] py_lower_char_t [OF d]
  have "\<not> is_int_space a" and "\<not> is_int_space d" and "\<not> is_digit a"
    and "a \<noteq> CHR ''-''" and "a \<noteq> CHR ''+''"
    by (auto simp: is_int_space_def is_digit_def)
  then show ?thesis
    by (simp add: py_int_def int_strip_def s int_literal_def)
qed

lemma checkpoint_pause: "checkpoint (pause cfg k st) = Some (py_str_int (int k))"
  by (simp add: pause_def)

lemma audit_row_exit:
  assumes "confirm_prompt row = Inr question" and "py_lower stop = ''exit''"
  shows "audit_row cfg k row (stop # inputs) st =
         Inr (False, pause cfg k (say question st), inputs)"
  using assms by (simp add: then_do_def)

lemma audit_row_no_exit:
  assumes "confirm_prompt row = Inr question" and "correction_prompt row = Inr question2"
    and "py_lower no = ''n''" and "py_lower stop = ''exit''"
  shows "audit_row cfg k row (no # stop # inputs) st =
         Inr (False, pause cfg k (say question2 (say question st)), inputs)"
  using assms by (simp add: then_do_def)

lemma audit_row_correction:
  assumes "confirm_prompt row = Inr question" and "correction_prompt row = Inr question2"
    and "py_lower no = ''n''" and "py_int correction = Inr v"
  shows "audit_row cfg i row (no # correction # inputs) st =
         (case pdf_start_store st v of
            Inr stored \<Rightarrow>
              Inr (True,
                   (say question2 (say question st))
                     \<lparr>df := df_at_set (df st) i ''PDF Start'' stored\<rparr>,
                   inputs)
          | Inl e \<Rightarrow>
              if e = ValueError
              then audit_row cfg i row inputs
                     (say invalid_number_message (say question2 (say question st)))
              else Inl e)"
proof -
  from assms(4) have "py_lower correction \<noteq> ''exit''"
    using py_int_exit [of correction] by auto
  with assms show ?thesis
    by (simp add: then_do_def say_def split: sum.splits)
qed

text \<open>
  Claim C7. When the loop is at row \<open>k\<close> and the word \<open>exit\<close> is typed, at the confirmation
  or at the correction prompt, the audit writes exactly \<open>k\<close> to the checkpoint and returns
  \<open>False\<close>. A later run that reads this checkpoint gets \<open>k\<close>, passes over the rows before
  \<open>k\<close> without asking or reading anything, and asks about row \<open>k\<close> first.
\<close>

theorem audit_checkpoint_round_trip:
  assumes "confirm_prompt row = Inr question" and "correction_prompt row = Inr question2"
    and "py_lower stop = ''exit''" and "py_lower no = ''n''"
    and "last_audited_row \<le> int k"
  shows "audit_loop cfg ((k, row) # rest) last_audited_row (stop # inputs) st =
           Inr (False, pause cfg k (say question st), inputs) \<and>
         audit_loop cfg ((k, row) # rest) last_audited_row (no # stop # inputs) st =
           Inr (False, pause cfg k (say question2 (say question st)), inputs) \<and>
         checkpoint (pause cfg k st1) = Some (py_str_int (int k)) \<and>
         get_last_audited_row (checkpoint (pause cfg k st1)) = Inr (int k) \<and>
         (k < length (df st2) \<longrightarrow>
            audit_process cfg (int k) inputs2 st2 =
              then_do (audit_row cfg k (df st2 ! k) inputs2 st2) (\<lambda>(finished, st', inputs').
                if finished
                then audit_loop cfg (drop (Suc k) (iterrows (df st2))) (int k) inputs' st'
                else Inr (False, st', inputs')))"
proof -
  from assms(5) have "\<not> int k < last_audited_row"
    by simp
  then have "audit_loop cfg ((k, row) # rest) last_audited_row (stop # inputs) st =
      Inr (False, pause cfg k (say question st), inputs)"
    and "audit_loop cfg ((k, row) # rest) last_audited_row (no # stop # inputs) st =
      Inr (False, pause cfg k (say question2 (say question st)), inputs)"
    using assms(1-4)
    by (simp_all add: audit_row_exit audit_row_no_exit then_do_def del: audit_row.simps)
  moreover have "get_last_audited_row (checkpoint (pause cfg k st1)) = Inr (int k)"
    by (simp only: checkpoint_pause get_last_audited_row_written)
  ultimately show ?thesis
    by (simp add: checkpoint_pause audit_process_resume)
qed


text \<open>A frame of two rows and the questions the audit asks about its second row.\<close>

definition example_frame :: "row list" where
  "example_frame =
     [example_row (Str ''A'') ''Law'' (Str ''1''), example_row (Str ''A'') ''Law'' (Str ''2'')]"

text \<open>
  Two columns. A column of 64-bit integers, which is what a PDF Start column of page
  numbers is, keeps what it can hold and refuses the rest with \<open>ValueError\<close>. A column of
  floats, which is what a PDF Start column with an empty cell is, keeps the float of the
  same value, whose text ends in \<open>.0\<close> (for integers of the size of page numbers; a
  larger float prints with an exponent).
\<close>

definition int64_column :: "int \<Rightarrow> error + cell" where
  "int64_column v = (if - (2 ^ 63) \<le> v \<and> v < 2 ^ 63 then Inr (Num v) else Inl ValueError)"

definition float64_column :: "int \<Rightarrow> error + cell" where
  "float64_column v = Inr (Other (py_str_int v @ ''.0''))"

definition example_audit_state :: audit_state where
  "example_audit_state =
     \<lparr>df = example_frame, pdf_start_store = int64_column, checkpoint = None, stdout = []\<rparr>"

definition example_question :: string where
  "example_question =
     nl @ ''Is the PDF Start for:'' @ nl @ nl @ ''A'' @ nl @ nl @
     ''2'' @ '' - '' @ ''An Act'' @ nl @ nl @
     ''PDF Page: '' @ ''23'' @ nl @ nl @
     ''Correct? Yes (Y) or No (N) - (Enter '' @ [CHR 0x27] @ ''exit'' @ [CHR 0x27] @
     '' to stop):''"

definition example_question2 :: string where
  "example_question2 =
     nl @ ''What is the correct PDF Start for '' @ ''An Act'' @ '', '' @
     ''A'' @ ''-'' @ ''2'' @
     ''? (Enter '' @ [CHR 0x27] @ ''exit'' @ [CHR 0x27] @ '' to stop) ''"

lemma example_prompts:
  "confirm_prompt (example_row (Str ''A'') ''Law'' (Str ''2'')) = Inr example_question"
  "correction_prompt (example_row (Str ''A'') ''Law'' (Str ''2'')) = Inr example_question2"
  by (simp_all add: confirm_prompt_def correction_prompt_def then_do_def row_item_def
      example_row_def example_question_def example_question2_def py_str_int_23)

lemma example_words:
  "py_lower ''Exit'' = ''exit''" "py_lower ''N'' = ''n''" "py_lower ''y'' = ''y''"
  by (simp_all add: py_lower_def py_lower_char_def)

lemma example_frame_second:
  "length (df example_audit_state) = 2"
  "df example_audit_state ! 1 = example_row (Str ''A'') ''Law'' (Str ''2'')"
  by (simp_all add: example_audit_state_def example_frame_def)

theorem audit_checkpoint_round_trip_witness:
  "confirm_prompt (example_row (Str ''A'') ''Law'' (Str ''2'')) = Inr example_question \<and>
   correction_prompt (example_row (Str ''A'') ''Law'' (Str ''2'')) = Inr example_question2 \<and>
   py_lower ''Exit'' = ''exit'' \<and> py_lower ''N'' = ''n'' \<and> (0::int) \<le> int 1 \<and>
   1 < length (df example_audit_state) \<and>
   audit_loop example_config [(1, example_row (Str ''A'') ''Law'' (Str ''2''))] 0 [''Exit'']
     example_audit_state =
     Inr (False, pause example_config 1 (say example_question example_audit_state), []) \<and>
   audit_loop example_config [(1, example_row (Str ''A'') ''Law'' (Str ''2''))] 0
     [''N'', ''Exit''] example_audit_state =
     Inr (False,
          pause example_config 1 (say example_question2 (say example_question example_audit_state)),
          []) \<and>
   checkpoint (pause example_config 1 example_audit_state) = Some (py_str_int (int 1)) \<and>
   get_last_audited_row (checkpoint (pause example_config 1 example_audit_state)) =
     Inr (int 1) \<and>
   audit_process example_config (int 1) [''y''] example_audit_state =
     Inr (True, say example_question example_audit_state, [])"
proof -
  let ?row = "example_row (Str ''A'') ''Law'' (Str ''2'')"
  have le: "(0::int) \<le> int 1"
    by simp
  have len: "1 < length (df example_audit_state)"
    by (simp add: example_frame_second)
  have rest: "drop (Suc 1) (iterrows (df example_audit_state)) = []"
    by (simp add: iterrows_def example_frame_second)
  have yes: "audit_row example_config 1 ?row [''y''] example_audit_state =
      Inr (True, say example_question example_audit_state, [])"
    by (simp add: example_prompts example_words then_do_def)
  note round_trip = audit_checkpoint_round_trip [OF example_prompts example_words(1,2) le,
      of example_config "[]" "[]" example_audit_state example_audit_state example_audit_state
        "[''y'']"]
  from round_trip len
  have "audit_process example_config (int 1) [''y''] example_audit_state =
      then_do (audit_row example_config 1 (df example_audit_state ! 1) [''y'']
                 example_audit_state)
        (\<lambda>(finished, st', inputs').
           if finished
           then audit_loop example_config (drop (Suc 1) (iterrows (df example_audit_state)))
                  (int 1) inputs' st'
           else Inr (False, st', inputs'))"
    by blast
  then have "audit_process example_config (int 1) [''y''] example_audit_state =
      Inr (True, say example_question example_audit_state, [])"
    by (simp only: example_frame_second(2) yes rest then_do_def sum.case prod.case if_True
        audit_loop.simps(1))
  with round_trip example_prompts example_words(1,2) le len show ?thesis
    by blast
qed

text \<open>
  Claim C8, as amended. Answering \<open>n\<close> for row \<open>i\<close> and then typing a valid integer (of at
  most 4300 characters, the default limit of \<open>int()\<close>) changes at most one place of the
  frame. When the PDF Start column stores the value, the questions for the row end, the
  PDF Start cell of row \<open>i\<close> holds what the column keeps for it (the integer itself in a
  column that keeps integers), and every other cell of row \<open>i\<close>, every other row, the
  number of rows and the checkpoint are as before. When the store raises \<open>ValueError\<close>,
  the line about a valid value is printed and the row is asked again with the frame
  unchanged; any other exception of the store leaves the loop.
\<close>

theorem correction_changes_only_pdf_start:
  assumes "confirm_prompt row = Inr question" and "correction_prompt row = Inr question2"
    and "py_lower no = ''n''" and "py_int correction = Inr v"
    and "length correction \<le> 4300" and "i < length (df st)"
  shows "(\<forall>stored. pdf_start_store st v = Inr stored \<longrightarrow>
            (\<exists>st'. audit_row cfg i row (no # correction # inputs) st = Inr (True, st', inputs) \<and>
               length (df st') = length (df st) \<and>
               (df st' ! i) ''PDF Start'' = Some stored \<and>
               (\<forall>column. column \<noteq> ''PDF Start'' \<longrightarrow>
                  (df st' ! i) column = (df st ! i) column) \<and>
               (\<forall>j. j \<noteq> i \<longrightarrow> df st' ! j = df st ! j) \<and>
               checkpoint st' = checkpoint st)) \<and>
         (\<forall>e. pdf_start_store st v = Inl e \<longrightarrow>
            audit_row cfg i row (no # correction # inputs) st =
              (if e = ValueError
               then audit_row cfg i row inputs
                      (say invalid_number_message (say question2 (say question st)))
               else Inl e)) \<and>
         df (say invalid_number_message (say question2 (say question st))) = df st"
proof -
  note run = audit_row_correction [OF assms(1-4), of cfg i inputs st]
  have "\<exists>st'. audit_row cfg i row (no # correction # inputs) st = Inr (True, st', inputs) \<and>
           length (df st') = length (df st) \<and>
           (df st' ! i) ''PDF Start'' = Some stored \<and>
           (\<forall>column. column \<noteq> ''PDF Start'' \<longrightarrow> (df st' ! i) column = (df st ! i) column) \<and>
           (\<forall>j. j \<noteq> i \<longrightarrow> df st' ! j = df st ! j) \<and>
           checkpoint st' = checkpoint st"
    if stored: "pdf_start_store st v = Inr stored" for stored
  proof -
    let ?st' = "(say question2 (say question st))
        \<lparr>df := df_at_set (df st) i ''PDF Start'' stored\<rparr>"
    from run stored
    have "audit_row cfg i row (no # correction # inputs) st = Inr (True, ?st', inputs)"
      by simp
    moreover from assms(6) have "length (df ?st') = length (df st)"
      and "(df ?st' ! i) ''PDF Start'' = Some stored"
      and "\<forall>column. column \<noteq> ''PDF Start'' \<longrightarrow> (df ?st' ! i) column = (df st ! i) column"
      and "\<forall>j. j \<noteq> i \<longrightarrow> df ?st' ! j = df st ! j"
      and "checkpoint ?st' = checkpoint st"
      by (simp_all add: df_at_set_def say_def)
    ultimately show ?thesis
      by blast
  qed
  moreover have "audit_row cfg i row (no # correction # inputs) st =
      (if e = ValueError
       then audit_row cfg i row inputs
              (say invalid_number_message (say question2 (say question st)))
       else Inl e)"
    if "pdf_start_store st v = Inl e" for e
    using run that by simp
  moreover have "df (say invalid_number_message (say question2 (say question st))) = df st"
    by (simp add: say_def)
  ultimately show ?thesis
    by blast
qed

lemma py_int_42: "py_int ''42'' = Inr 42"
  by (simp add: py_int_digits is_digit_def decimal_def digit_val_def)

lemma py_int_2_63: "py_int ''9223372036854775808'' = Inr 9223372036854775808"
  by (simp add: py_int_digits is_digit_def decimal_def digit_val_def)

text \<open>
  A frame whose second row has no page number yet: its PDF Start column is a column of
  floats, with \<open>23.0\<close> in the first row and \<open>NaN\<close> in the second.
\<close>

definition example_float64_state :: audit_state where
  "example_float64_state =
     \<lparr>df = [(example_row (Str ''A'') ''Law'' (Str ''1''))(''PDF Start'' \<mapsto> Other ''23.0''),
            (example_row (Str ''A'') ''Law'' (Str ''2''))(''PDF Start'' \<mapsto> NaN)],
      pdf_start_store = float64_column, checkpoint = None, stdout = []\<rparr>"

theorem correction_changes_only_pdf_start_witness:
  "confirm_prompt (example_row (Str ''A'') ''Law'' (Str ''2'')) = Inr example_question \<and>
   correction_prompt (example_row (Str ''A'') ''Law'' (Str ''2'')) = Inr example_question2 \<and>
   py_lower ''N'' = ''n'' \<and> py_int ''42'' = Inr 42 \<and> length ''42'' \<le> 4300 \<and>
   1 < length (df example_audit_state) \<and>
   pdf_start_store example_audit_state 42 = Inr (Num 42) \<and>
   (\<exists>st'. audit_row example_config 1 (example_row (Str ''A'') ''Law'' (Str ''2''))
            [''N'', ''42''] example_audit_state = Inr (True, st', []) \<and>
          length (df st') = 2 \<and>
          (df st' ! 1) ''PDF Start'' = Some (Num 42) \<and>
          (df st' ! 1) ''Title'' = Some (Str ''An Act'') \<and>
          df st' ! 0 = example_row (Str ''A'') ''Law'' (Str ''1'') \<and>
          checkpoint st' = None) \<and>
   py_int ''9223372036854775808'' = Inr 9223372036854775808 \<and>
   pdf_start_store example_audit_state 9223372036854775808 = Inl ValueError \<and>
   audit_row example_config 1 (example_row (Str ''A'') ''Law'' (Str ''2''))
     [''N'', ''9223372036854775808'', ''y''] example_audit_state =
     Inr (True,
          say example_question
            (say invalid_number_message
               (say example_question2 (say example_question example_audit_state))),
          [])"
proof -
  let ?row = "example_row (Str ''A'') ''Law'' (Str ''2'')"
  have len: "1 < length (df example_audit_state)"
    by (simp add: example_frame_second)
  have short: "length ''42'' \<le> 4300"
    by simp
  have keeps: "pdf_start_store example_audit_state 42 = Inr (Num 42)"
    by (simp add: example_audit_state_def int64_column_def)
  from correction_changes_only_pdf_start [OF example_prompts example_words(2) py_int_42 short
      len, of example_config "[]"] keeps
  obtain st' where run: "audit_row example_config 1 ?row [''N'', ''42''] example_audit_state =
        Inr (True, st', [])"
    and n: "length (df st') = length (df example_audit_state)"
    and start: "(df st' ! 1) ''PDF Start'' = Some (Num 42)"
    and cells: "\<forall>column. column \<noteq> ''PDF Start'' \<longrightarrow>
        (df st' ! 1) column = (df example_audit_state ! 1) column"
    and rows: "\<forall>j. j \<noteq> 1 \<longrightarrow> df st' ! j = df example_audit_state ! j"
    and cp: "checkpoint st' = checkpoint example_audit_state"
    by blast
  have "(df example_audit_state ! 1) ''Title'' = Some (Str ''An Act'')"
    and "df example_audit_state ! 0 = example_row (Str ''A'') ''Law'' (Str ''1'')"
    by (simp_all add: example_audit_state_def example_frame_def example_row_def)
  with cells rows have title: "(df st' ! 1) ''Title'' = Some (Str ''An Act'')"
    and first: "df st' ! 0 = example_row (Str ''A'') ''Law'' (Str ''1'')"
    by simp_all
  from n have n2: "length (df st') = 2"
    by (simp add: example_frame_second)
  from cp have cp2: "checkpoint st' = None"
    by (simp add: example_audit_state_def)
  from run n2 start title first cp2
  have stored: "\<exists>st'. audit_row example_config 1 ?row [''N'', ''42''] example_audit_state =
            Inr (True, st', []) \<and>
          length (df st') = 2 \<and>
          (df st' ! 1) ''PDF Start'' = Some (Num 42) \<and>
          (df st' ! 1) ''Title'' = Some (Str ''An Act'') \<and>
          df st' ! 0 = example_row (Str ''A'') ''Law'' (Str ''1'') \<and>
          checkpoint st' = None"
    by blast
  have long: "length ''9223372036854775808'' \<le> 4300"
    by simp
  have refuses: "pdf_start_store example_audit_state 9223372036854775808 = Inl ValueError"
    by (simp add: example_audit_state_def int64_column_def)
  have yes: "audit_row example_config 1 ?row [''y''] st =
      Inr (True, say example_question st, [])" for st
    by (simp add: example_prompts example_words then_do_def)
  from correction_changes_only_pdf_start [OF example_prompts example_words(2) py_int_2_63 long
      len, of example_config "[''y'']"] refuses
  have "audit_row example_config 1 ?row [''N'', ''9223372036854775808'', ''y'']
      example_audit_state =
      audit_row example_config 1 ?row [''y'']
        (say invalid_number_message
           (say example_question2 (say example_question example_audit_state)))"
    by simp
  then have refused: "audit_row example_config 1 ?row [''N'', ''9223372036854775808'', ''y'']
      example_audit_state =
      Inr (True,
           say example_question
             (say invalid_number_message
                (say example_question2 (say example_question example_audit_state))),
           [])"
    by (simp only: yes)
  from example_prompts example_words(2) py_int_42 short len keeps stored py_int_2_63 refuses
    refused
  show ?thesis
    by blast
qed

text \<open>
  The claim as it was stated has the cell hold the integer typed. In the frame with the
  column of floats the auditor answers \<open>N\<close> for the second row and types \<open>42\<close>. The cell
  then holds the float: its text is \<open>42.0\<close>, not \<open>42\<close>, and that text is what the link to
  the page is built from.
\<close>

theorem correction_changes_only_pdf_start_counterexample:
  "(case audit_row example_config 1 (df example_float64_state ! 1) [''N'', ''42'']
           example_float64_state of
      Inl e \<Rightarrow> None
    | Inr (finished, st', inputs') \<Rightarrow>
        Some (finished, map (\<lambda>row. row ''PDF Start'') (df st'), inputs')) =
     Some (True, [Some (Other ''23.0''), Some (Other ''42.0'')], []) \<and>
   Other ''42.0'' \<noteq> Num 42 \<and>
   py_str (Other ''42.0'') \<noteq> py_str (Num 42) \<and>
   generate_pdf_link example_config ''Law'' ''Public'' (py_str (Other ''42.0'')) =
     ''public.pdf#page=42.0''"
proof -
  let ?row = "df example_float64_state ! 1"
  obtain question where question: "confirm_prompt ?row = Inr question"
    by (simp add: example_float64_state_def confirm_prompt_def then_do_def row_item_def
        example_row_def)
  obtain question2 where question2: "correction_prompt ?row = Inr question2"
    by (simp add: example_float64_state_def correction_prompt_def then_do_def row_item_def
        example_row_def)
  have store: "pdf_start_store example_float64_state 42 = Inr (Other ''42.0'')"
    by (simp add: example_float64_state_def float64_column_def py_str_int_def
        nat_digits.simps digit_char_def)
  note audit_row_correction [OF question question2 example_words(2) py_int_42,
      of example_config 1 "[]" example_float64_state]
  then have "audit_row example_config 1 ?row [''N'', ''42''] example_float64_state =
      Inr (True,
           (say question2 (say question example_float64_state))
             \<lparr>df := df_at_set (df example_float64_state) 1 ''PDF Start'' (Other ''42.0'')\<rparr>,
           [])"
    by (simp only: store sum.case)
  moreover have "map (\<lambda>row. row ''PDF Start'')
      (df_at_set (df example_float64_state) 1 ''PDF Start'' (Other ''42.0'')) =
      [Some (Other ''23.0''), Some (Other ''42.0'')]"
    by (simp add: df_at_set_def example_float64_state_def)
  ultimately have run: "(case audit_row example_config 1 ?row [''N'', ''42'']
           example_float64_state of
      Inl e \<Rightarrow> None
    | Inr (finished, st', inputs') \<Rightarrow>
        Some (finished, map (\<lambda>row. row ''PDF Start'') (df st'), inputs')) =
     Some (True, [Some (Other ''23.0''), Some (Other ''42.0'')], [])"
    by simp
  have differs: "py_str (Other ''42.0'') \<noteq> py_str (Num 42)"
    by (simp add: py_str_int_def nat_digits.simps digit_char_def)
  have link: "generate_pdf_link example_config ''Law'' ''Public'' (py_str (Other ''42.0'')) =
     ''public.pdf#page=42.0''"
    by (simp add: generate_pdf_link_def example_config_def)
  from run differs link show ?thesis
    by simp
qed

text \<open>
  Claim C10. When the checkpoint file does not exist, or is empty, or holds whitespace
  only, \<open>get_last_audited_row\<close> returns 0 and raises nothing. With 0 the loop passes over
  no row: it asks about the first row of the frame.
\<close>

theorem get_last_audited_row_fresh:
  assumes "file = None \<or>
           (\<exists>text. file = Some text \<and> list_all is_space text)"
  shows "get_last_audited_row file = Inr 0 \<and>
         (df st \<noteq> [] \<longrightarrow>
            audit_process cfg 0 inputs st =
              then_do (audit_row cfg 0 (hd (df st)) inputs st) (\<lambda>(finished, st', inputs').
                if finished then audit_loop cfg (tl (iterrows (df st))) 0 inputs' st'
                else Inr (False, st', inputs')))"
proof -
  from assms have "get_last_audited_row file = Inr 0"
    by (auto simp: get_last_audited_row_def py_strip_blank)
  moreover have "audit_process cfg 0 inputs st =
      then_do (audit_row cfg 0 (hd (df st)) inputs st) (\<lambda>(finished, st', inputs').
        if finished then audit_loop cfg (tl (iterrows (df st))) 0 inputs' st'
        else Inr (False, st', inputs'))" if "df st \<noteq> []"
  proof -
    from that have len: "0 < length (df st)"
      by simp
    from that have "df st ! 0 = hd (df st)"
      by (simp add: hd_conv_nth)
    moreover have "drop (Suc 0) (iterrows (df st)) = tl (iterrows (df st))"
      by (simp add: drop_Suc)
    ultimately show ?thesis
      using audit_process_resume [OF len, of cfg inputs] by (simp cong: if_cong)
  qed
  ultimately show ?thesis
    by blast
qed

theorem get_last_audited_row_fresh_witness:
  "list_all is_space [CHR '' '', CHR 0x0A] \<and>
   get_last_audited_row (Some [CHR '' '', CHR 0x0A]) = Inr 0 \<and>
   df example_audit_state \<noteq> [] \<and>
   audit_process example_config 0 [] example_audit_state = Inl EOFError"
proof -
  have blank: "list_all is_space [CHR '' '', CHR 0x0A]"
    by (simp add: is_space_def)
  then have fresh: "Some [CHR '' '', CHR 0x0A] = None \<or>
      (\<exists>text. Some [CHR '' '', CHR 0x0A] = Some text \<and> list_all is_space text)"
    by simp
  have rows: "df example_audit_state \<noteq> []"
    by (simp add: example_audit_state_def example_frame_def)
  have "confirm_prompt (hd (df example_audit_state)) \<noteq> Inl KeyError"
    by (simp add: example_audit_state_def example_frame_def confirm_prompt_def then_do_def
        row_item_def example_row_def)
  then have "audit_row example_config 0 (hd (df example_audit_state)) [] example_audit_state =
      Inl EOFError"
    by (cases "confirm_prompt (hd (df example_audit_state))")
      (auto simp: then_do_def confirm_prompt_def row_item_def split: option.splits)
  with get_last_audited_row_fresh [OF fresh, of example_audit_state example_config "[]"] rows
  have "get_last_audited_row (Some [CHR '' '', CHR 0x0A]) = Inr 0"
    and "audit_process example_config 0 [] example_audit_state = Inl EOFError"
    by (simp_all add: then_do_def)
  with blank rows show ?thesis
    by blast
qed


section \<open>Properties of the orchestration\<close>

text \<open>
  With an audited file and an HTML output both present, \<open>main\<close> leaves every file as it
  is, says that the output exists and how to have it made again, and exits.
\<close>

lemma main_keeps_html_of_audited_file:
  assumes "audited_file w = Some audited" and "html_file w = Some existing"
  shows "main (Some cfg) pth m loaded inputs w =
         (Exited,
          w\<lparr>console := console w @
             [nl @ ''Audited file '' @ quoted (audited_file_path pth) @ '' already exists.'' @ nl,
              nl @ ''HTML output '' @ quoted (html_output_path pth) @
                '' already exists. If you wish to regenerate, please delete or backup the existing file.'' @
                nl]\<rparr>)"
  using assms by (simp add: main_def print_line_def)

text \<open>
  Without an audited file, an audit that runs to its end is followed by the writing of
  the HTML output, whether or not that file exists.
\<close>

lemma main_writes_html_after_audit:
  assumes "audited_file w = None"
    and "get_last_audited_row (checkpoint_file w) = Inr last_audited_row"
    and "audit_process cfg last_audited_row inputs
           \<lparr>df = d, pdf_start_store = store, checkpoint = checkpoint_file w,
            stdout = console w\<rparr> =
         Inr (True, st, inputs')"
    and "generate_html (df st) cfg m = Inr g"
  shows "fst (main (Some cfg) pth m (Inr (d, store)) inputs w) = Finished \<and>
         html_file (snd (main (Some cfg) pth m (Inr (d, store)) inputs w)) =
           Some (html_content g)"
  using assms by (simp add: main_def write_html_def print_line_def)

definition example_paths :: paths where
  "example_paths =
     \<lparr>audited_file_path = ''excel/audited-statutes.xlsx'',
      in_process_file_path = ''excel/in-process-statutes.xlsx'',
      html_output_path = ''html/statutes.html''\<rparr>"

definition example_world :: world where
  "example_world =
     \<lparr>audited_file = None, in_process_file = None,
      html_file = Some ''<p>earlier output</p>'', checkpoint_file = None, console = []\<rparr>"

text \<open>
  Claim C9. The HTML output should be written only when it does not exist yet. The code
  checks that only on the path that starts from an audited file. Here there is no audited
  file, the spreadsheet has one row, the user confirms it, and the run ends normally with
  the earlier HTML output replaced.
\<close>

theorem main_overwrites_html:
  "fst (main (Some example_config) example_paths example_module
          (Inr ([example_row (Str ''A'') ''Law'' (Str ''1'')], int64_column)) [''y'']
          example_world) = Finished \<and>
   html_file (snd (main (Some example_config) example_paths example_module
          (Inr ([example_row (Str ''A'') ''Law'' (Str ''1'')], int64_column)) [''y'']
          example_world)) =
     Some (html_header example_config @ table_open ''A'' @ example_law_segment @ final_close) \<and>
   html_file example_world = Some ''<p>earlier output</p>''"
proof -
  let ?row = "example_row (Str ''A'') ''Law'' (Str ''1'')"
  let ?st = "\<lparr>df = [?row], pdf_start_store = int64_column,
              checkpoint = checkpoint_file example_world, stdout = console example_world\<rparr>"
  have no_audited: "audited_file example_world = None"
    and old: "html_file example_world = Some ''<p>earlier output</p>''"
    by (simp_all add: example_world_def)
  have last: "get_last_audited_row (checkpoint_file example_world) = Inr 0"
    by (simp add: example_world_def get_last_audited_row_def)
  obtain question where question: "confirm_prompt ?row = Inr question"
    by (simp add: confirm_prompt_def then_do_def row_item_def example_row_def)
  then have "audit_row example_config 0 ?row [''y''] ?st = Inr (True, say question ?st, [])"
    by (simp add: example_words then_do_def)
  then have audit: "audit_process example_config 0 [''y''] ?st = Inr (True, say question ?st, [])"
    by (simp add: audit_process_def iterrows_def then_do_def del: audit_row.simps)
  have session: "?row ''Session'' = Some (Str ''A'')"
    by (simp add: example_row_def)
  have "generate_row example_config example_module
      \<lparr>html_content = html_header example_config, previous_session = [], printed = []\<rparr> ?row =
      Inr \<lparr>html_content = html_header example_config @ table_open ''A'' @ example_law_segment,
           previous_session = ''A'', printed = []\<rparr>"
    by (simp add: generate_row_ok [OF session example_law_row_output] session_change_def
        emit_def)
  then have html: "generate_html (df (say question ?st)) example_config example_module =
      Inr \<lparr>html_content =
             html_header example_config @ table_open ''A'' @ example_law_segment @ final_close,
           previous_session = ''A'', printed = []\<rparr>"
    by (simp add: generate_html_def then_do_def say_def)
  from main_writes_html_after_audit [OF no_audited last audit html, of example_paths] old
  show ?thesis
    by simp
qed

end
